theory Spec2Isabelle
  imports Main "HOL-Library.Word" "HOL-Library.Multiset" "HOL-Library.Signed_Division"
begin
section \<open>Go values shared by the three source files\<close>

text \<open>
  A Go call either returns or panics. The two panics that the modelled code can raise
  are an index past the end of a slice and a dereference of a nil pointer.
\<close>

datatype panic = IndexOutOfRange | NilDereference

datatype 'a go = Panic panic | Return 'a

text \<open>
  \<^verbatim>\<open>fmt.Sprintf("%v", n)\<close> on an unsigned number: its decimal digits.
\<close>

definition digit :: "nat \<Rightarrow> char" where
  "digit n = ''0123456789'' ! n"

function Itoa :: "nat \<Rightarrow> string" where
  "Itoa n = (if n < 10 then [digit n] else Itoa (n div 10) @ [digit (n mod 10)])"
  by pat_completeness auto
termination
  by (relation "measure id") auto

declare Itoa.simps [simp del]

section \<open>The port planner: \<open>NewCustomProbe\<close> (custom_probe.go)\<close>

text \<open>
  \<open>dockerapi.Port\<close> is a string such as \<open>80/tcp\<close>; a \<open>PortBinding\<close> carries the
  host address and the host port, both strings.
\<close>

type_synonym Port = string

record PortBinding =
  HostIP :: string
  HostPort :: string

text \<open>
  \<open>NetworkSettings.Ports\<close> is a Go map from \<open>Port\<close> to a slice of bindings. It is
  modelled as an association list: \<open>map_of\<close> is the lookup, the order of the list is
  the order in which \<open>range\<close> happens to visit the entries. A Go map holds a key once
  (\<open>distinct (map fst m)\<close>).
\<close>

type_synonym PortMap = "(Port \<times> PortBinding list) list"

record HTTPProbeCmd =
  Protocol :: string
  Method :: string
  Resource :: string
  Headers :: "string list"
  Body :: string
  Username :: string
  Password :: string

text \<open>
  \<open>dockerfile.Info\<close>, which the image inspector derives from the image history:
  the fields the three files read. An entry of \<open>ImageStack\<close> is the pair of
  \<open>FullName\<close> and \<open>ID\<close> of a layer.
\<close>

record dockerfile_Info =
  ExeUser :: string
  AllUsers :: "string list"
  ImageStack :: "(string \<times> string) list"
  ExposedPorts :: "string list"

text \<open>
  The fields of \<open>container.Inspector\<close> that the three files read:
  \<open>ContainerInfo.NetworkSettings.Ports\<close>, the two control ports,
  \<open>ImageInspector.DockerfileInfo\<close> (a pointer, \<open>None\<close> when nil: line 169 of
  build.go tests it), \<open>DockerHostIP\<close>, and the strings printed once the container
  runs.
\<close>

record Inspector =
  NetworkPorts :: PortMap
  CmdPort :: Port
  EvtPort :: Port
  DockerfileInfo :: "dockerfile_Info option"
  DockerHostIP :: string
  ContainerName :: string
  ContainerID :: string
  ContainerPortList :: string
  ContainerPortsInfo :: string

text \<open>Go's \<open>int\<close> on the 64-bit platforms the tool is built for; \<open>uint16\<close> for ports.\<close>

type_synonym go_int = "64 word"

record CustomProbe =
  PrintState :: bool
  PrintPrefix :: string
  Ports :: "string list"
  Cmds :: "HTTPProbeCmd list"
  RetryCount :: go_int
  RetryWait :: go_int
  TargetPorts :: "16 word list"
  ProbeFull :: bool
  ContainerInspector :: Inspector

text \<open>
  \<open>availablePorts\<close> is a \<open>map[string]struct{}\<close>, a set of host ports. It is kept as a
  list without repetition: \<open>List.insert\<close> stores a key, \<open>removeAll\<close> deletes it.
  The order in which the final \<open>range availablePorts\<close> yields the keys is chosen by
  the Go runtime; the model takes that choice as a parameter, any function that
  permutes the keys.
\<close>

type_synonym KeyOrder = "string list \<Rightarrow> string list"

definition go_range_order :: "KeyOrder \<Rightarrow> bool" where
  "go_range_order r \<longleftrightarrow> (\<forall>ks. mset (r ks) = mset ks)"

text \<open>Lines 62-68: the loop that collects the available host ports.\<close>

fun availablePorts_loop :: "Port \<Rightarrow> Port \<Rightarrow> PortMap \<Rightarrow> string list \<Rightarrow> string list go" where
  "availablePorts_loop c e [] avail = Return avail"
| "availablePorts_loop c e ((nsPortKey, nsPortData) # rest) avail =
     (if nsPortKey = c \<or> nsPortKey = e then availablePorts_loop c e rest avail
      else (case nsPortData of
              [] \<Rightarrow> Panic IndexOutOfRange
            | b # _ \<Rightarrow> availablePorts_loop c e rest (List.insert (HostPort b) avail)))"

text \<open>Lines 73-80: the explicit target ports, \<open>fmt.Sprintf("%v/tcp", pnum)\<close>.\<close>

definition tcp_spec :: "16 word \<Rightarrow> Port" where
  "tcp_spec pnum = Itoa (unat pnum) @ ''/tcp''"

fun targetPorts_loop :: "PortMap \<Rightarrow> 16 word list \<Rightarrow> string list \<Rightarrow> string list go" where
  "targetPorts_loop m [] ports = Return ports"
| "targetPorts_loop m (pnum # rest) ports =
     (case map_of m (tcp_spec pnum) of
        None \<Rightarrow> targetPorts_loop m rest ports
      | Some [] \<Rightarrow> Panic IndexOutOfRange
      | Some (b # _) \<Rightarrow> targetPorts_loop m rest (ports @ [HostPort b]))"

text \<open>
  Lines 85-104: the exposed ports. The caller passes the list reversed, since the
  index runs from the last entry down to the first. The state is the pair of
  \<open>probe.Ports\<close> and \<open>availablePorts\<close>. Line 84 reads the list through the
  \<open>DockerfileInfo\<close> pointer.
\<close>

definition normalize_port :: "string \<Rightarrow> Port" where
  "normalize_port portInfo =
     (if CHR ''/'' \<notin> set portInfo then portInfo @ ''/tcp'' else portInfo)"

fun exposedPorts_loop ::
  "PortMap \<Rightarrow> string list \<Rightarrow> string list \<times> string list \<Rightarrow> (string list \<times> string list) go" where
  "exposedPorts_loop m [] st = Return st"
| "exposedPorts_loop m (portInfo # rest) (ports, avail) =
     (case map_of m (normalize_port portInfo) of
        None \<Rightarrow> exposedPorts_loop m rest (ports, avail)
      | Some [] \<Rightarrow> Panic IndexOutOfRange
      | Some (b # _) \<Rightarrow>
          exposedPorts_loop m rest (ports @ [HostPort b], removeAll (HostPort b) avail))"

text \<open>
  The constructor. The second component of the result is the returned \<open>error\<close>
  (\<open>None\<close> is \<open>nil\<close>).
\<close>

definition NewCustomProbe ::
  "KeyOrder \<Rightarrow> Inspector \<Rightarrow> HTTPProbeCmd list \<Rightarrow> go_int \<Rightarrow> go_int \<Rightarrow> 16 word list \<Rightarrow>
   bool \<Rightarrow> bool \<Rightarrow> string \<Rightarrow> (CustomProbe \<times> string option) go" where
  "NewCustomProbe rng inspector cmds retryCount retryWait targetPorts probeFull printState printPrefix =
     (let probe = \<lparr> PrintState = printState, PrintPrefix = printPrefix, Ports = [],
                    Cmds = cmds, RetryCount = retryCount, RetryWait = retryWait,
                    TargetPorts = targetPorts, ProbeFull = probeFull,
                    ContainerInspector = inspector \<rparr> in
      case availablePorts_loop (CmdPort inspector) (EvtPort inspector) (NetworkPorts inspector) [] of
        Panic x \<Rightarrow> Panic x
      | Return availablePorts \<Rightarrow>
          if targetPorts \<noteq> [] then
            (case targetPorts_loop (NetworkPorts inspector) targetPorts [] of
               Panic x \<Rightarrow> Panic x
             | Return ports \<Rightarrow> Return (probe\<lparr>Ports := ports\<rparr>, None))
          else
            (case DockerfileInfo inspector of
               None \<Rightarrow> Panic NilDereference
             | Some info \<Rightarrow>
                 (case exposedPorts_loop (NetworkPorts inspector) (rev (ExposedPorts info))
                         ([], availablePorts) of
                    Panic x \<Rightarrow> Panic x
                  | Return (ports, remaining) \<Rightarrow>
                      Return (probe\<lparr>Ports := ports @ rng remaining\<rparr>, None))))"

section \<open>The probe worker: \<open>Start\<close> (custom_probe.go)\<close>

subsection \<open>Time, requests, responses and the observable events\<close>

text \<open>
  \<open>time.Duration\<close> is an \<open>int64\<close> count of nanoseconds; \<open>time.Second\<close> is \<open>10^9\<close>.
  \<open>time.Sleep d\<close> pauses for \<open>d\<close> when \<open>d\<close> is positive and returns at once
  otherwise.
\<close>

type_synonym Duration = "64 word"

definition Second :: Duration where
  "Second = 1000000000"

definition pause :: "Duration \<Rightarrow> int" where
  "pause d = (if 0 <s d then sint d else 0)"

text \<open>
  The request handed to \<open>httpClient.Do\<close>: method, URL, the headers added in order,
  the basic-auth pair when one was set, and the body. \<open>reqBody\<close> is rewound by
  \<open>Seek(0, 0)\<close> after every call (line 199), so each request carries the whole body.
\<close>

record Request =
  req_method :: string
  req_url :: string
  req_header :: "(string \<times> string) list"
  req_auth :: "(string \<times> string) option"
  req_body :: string

record Response =
  StatusCode :: nat

text \<open>
  The error of a call as lines 234-246 classify it: a \<open>*url.Error\<close> whose inner
  error is \<open>io.EOF\<close>, any other \<open>*url.Error\<close>, any other error. The string is
  \<open>err.Error()\<close>.
\<close>

datatype call_error = UrlErrorEOF string | UrlError string | OtherError string

fun error_text :: "call_error \<Rightarrow> string" where
  "error_text (UrlErrorEOF s) = s"
| "error_text (UrlError s) = s"
| "error_text (OtherError s) = s"

text \<open>
  What \<open>httpClient.Do\<close> returns: a response with a nil error, or an error, with
  which a response may come (a failed redirect check). \<open>net/http\<close> never returns a
  nil response with a nil error, and a response always has a body.
\<close>

datatype outcome = Answered Response | Failed call_error "Response option"

text \<open>
  The world outside the worker: whether \<open>http.NewRequest\<close> accepts a method and a
  URL, what the \<open>n\<close>-th call of the run yields, and the clock reading printed with it.
\<close>

record Net =
  NewRequest_ok :: "string \<Rightarrow> string \<Rightarrow> bool"
  Do :: "nat \<Rightarrow> Request \<Rightarrow> outcome"
  Now :: "nat \<Rightarrow> string"

text \<open>
  The state a report carries (\<open>report.CmdState...\<close>) and the events a run leaves
  behind, in order: bytes written to standard output, sleeps, HTTP calls (numbered
  from 0), the draining and the closing of the body of a call's response, the closing
  of the probe's done channel, and the calls the two commands make on their
  collaborators.
\<close>

datatype CmdState = CmdStateUnknown | CmdStateError | CmdStateStarted | CmdStateCompleted | CmdStateDone

datatype event =
    Stdout string
  | Sleep Duration
  | HttpDo nat Request
  | ReadAll nat
  | CloseBody nat
  | CloseDone
  | VersionPrint
  | BuildBasicImage
  | Inspect
  | ProcessImageData
  | RunContainer
  | StartProbe
  | WaitEnter
  | WaitSignal
  | WaitTimeout
  | WaitProbe
  | FinishMonitoring
  | ShutdownContainer
  | Warn string
  | ShowFatImageDockerInstructions
  | ProcessContainerData
  | BuildImage
  | CopyMetaArtifacts
  | RemoveArtifacts
  | PrintCheckVersion
  | Save CmdState

definition Println :: "string \<Rightarrow> event" where
  "Println s = Stdout (s @ [CHR 0x0A])"

text \<open>The text on standard output and its lines (the text before each newline).\<close>

fun stdout :: "event list \<Rightarrow> string" where
  "stdout [] = []"
| "stdout (Stdout s # es) = s @ stdout es"
| "stdout (_ # es) = stdout es"

fun split_lines :: "string \<Rightarrow> string \<Rightarrow> string list" where
  "split_lines cur [] = (if cur = [] then [] else [cur])"
| "split_lines cur (c # cs) =
     (if c = CHR 0x0A then cur # split_lines [] cs else split_lines (cur @ [c]) cs)"

definition lines_of :: "event list \<Rightarrow> string list" where
  "lines_of es = split_lines [] (stdout es)"

subsection \<open>One attempt (lines 180-247)\<close>

text \<open>
  \<open>http.NewRequest\<close> returns a nil request together with its error; the error is
  overwritten by that of \<open>httpClient.Do\<close> (line 197) before anything reads it. The
  request is therefore an option, and every use of it dereferences it.
\<close>

definition NewRequest :: "Net \<Rightarrow> string \<Rightarrow> string \<Rightarrow> string \<Rightarrow> Request option" where
  "NewRequest net method url body =
     (if NewRequest_ok net method url
      then Some \<lparr> req_method = method, req_url = url, req_header = [], req_auth = None,
                  req_body = body \<rparr>
      else None)"

text \<open>
  \<open>strings.SplitN(hline, ":", 2)\<close> has two parts exactly when the line holds a colon;
  \<open>strings.TrimSpace\<close> is modelled on the ASCII white space.
\<close>

definition SplitN2 :: "string \<Rightarrow> (string \<times> string) option" where
  "SplitN2 hline =
     (if CHR '':'' \<notin> set hline then None
      else Some (takeWhile (\<lambda>c. c \<noteq> CHR '':'') hline, tl (dropWhile (\<lambda>c. c \<noteq> CHR '':'') hline)))"

definition is_space :: "char \<Rightarrow> bool" where
  "is_space c \<longleftrightarrow> c \<in> {CHR '' '', CHR 0x09, CHR 0x0A, CHR 0x0B, CHR 0x0C, CHR 0x0D}"

definition TrimSpace :: "string \<Rightarrow> string" where
  "TrimSpace s = rev (dropWhile is_space (rev (dropWhile is_space s)))"

fun add_headers :: "string list \<Rightarrow> Request option \<Rightarrow> Request option go" where
  "add_headers [] req = Return req"
| "add_headers (hline # rest) req =
     (case SplitN2 hline of
        None \<Rightarrow> add_headers rest req
      | Some (hname, hvalue) \<Rightarrow>
          (case req of
             None \<Rightarrow> Panic NilDereference
           | Some r \<Rightarrow>
               add_headers rest
                 (Some (r\<lparr>req_header := req_header r @ [(TrimSpace hname, TrimSpace hvalue)]\<rparr>))))"

definition set_basic_auth :: "HTTPProbeCmd \<Rightarrow> Request option \<Rightarrow> Request option go" where
  "set_basic_auth cmd req =
     (if Username cmd \<noteq> [] \<or> Password cmd \<noteq> [] then
        (case req of
           None \<Rightarrow> Panic NilDereference
         | Some r \<Rightarrow> Return (Some (r\<lparr>req_auth := Some (Username cmd, Password cmd)\<rparr>)))
      else Return req)"

text \<open>\<open>Client.Do\<close> reads \<open>req.URL\<close> first, so a nil request panics there.\<close>

definition client_do :: "Net \<Rightarrow> nat \<Rightarrow> Request option \<Rightarrow> (Request \<times> outcome) go" where
  "client_do net n req =
     (case req of None \<Rightarrow> Panic NilDereference | Some r \<Rightarrow> Return (r, Do net n r))"

text \<open>
  The counters of the worker (\<open>uint64\<close>; each grows by at most one per call, so they
  are natural numbers here), the stack of deferred \<open>res.Body.Close()\<close> calls of the
  goroutine's function, and the events so far.
\<close>

record Worker =
  callCount :: nat
  errCount :: nat
  okCount :: nat
  deferred :: "nat list"
  trace :: "event list"

definition emit :: "event list \<Rightarrow> Worker \<Rightarrow> Worker" where
  "emit es w = w\<lparr>trace := trace w @ es\<rparr>"

text \<open>Lines 165-177: the retry bound and the three waits, as \<open>int\<close> and \<open>Duration\<close>.\<close>

text \<open>Go's \<open>/\<close> on \<open>int\<close> truncates towards zero.\<close>

definition go_quot :: "go_int \<Rightarrow> go_int \<Rightarrow> go_int" where
  "go_quot a b = word_of_int (sint a sdiv sint b)"

definition probeRetryCount :: go_int where
  "probeRetryCount = 5"

definition maxRetryCount :: "CustomProbe \<Rightarrow> go_int" where
  "maxRetryCount p = (if 0 <s RetryCount p then RetryCount p else probeRetryCount)"

definition notReadyErrorWait :: "CustomProbe \<Rightarrow> Duration" where
  "notReadyErrorWait p = (if 0 <s RetryWait p then RetryWait p * 2 else 16)"

definition webErrorWait :: "CustomProbe \<Rightarrow> Duration" where
  "webErrorWait p = (if 0 <s RetryWait p then RetryWait p else 8)"

definition otherErrorWait :: "CustomProbe \<Rightarrow> Duration" where
  "otherErrorWait p = (if 0 <s RetryWait p then go_quot (RetryWait p) 2 else 4)"

text \<open>Lines 234-246: the sleep after a failed call.\<close>

fun backoff :: "CustomProbe \<Rightarrow> call_error \<Rightarrow> Duration" where
  "backoff p (UrlErrorEOF _) = notReadyErrorWait p * Second"
| "backoff p (UrlError _) = webErrorWait p * Second"
| "backoff p (OtherError _) = otherErrorWait p * Second"

text \<open>Lines 217-226: the line printed for a call.\<close>

definition call_line :: "CustomProbe \<Rightarrow> Net \<Rightarrow> HTTPProbeCmd \<Rightarrow> string \<Rightarrow> nat \<Rightarrow> nat \<Rightarrow> outcome \<Rightarrow> string" where
  "call_line p net cmd addr i n out =
     PrintPrefix p @ '' info=http.probe.call status='' @
     (case out of Answered res \<Rightarrow> Itoa (StatusCode res) | Failed _ _ \<Rightarrow> ''error'') @
     '' method='' @ Method cmd @ '' target='' @ addr @ '' attempt='' @ Itoa (i + 1) @ '' '' @
     (case out of Answered _ \<Rightarrow> [] | Failed err _ \<Rightarrow> ''error='' @ [CHR 0x27] @ error_text err @ [CHR 0x27]) @
     '' time='' @ Now net n"

text \<open>
  The body of the retry loop for attempt \<open>i\<close> (counted from 0). The result says
  whether the loop is left by \<open>break\<close>.
\<close>

definition attempt ::
  "CustomProbe \<Rightarrow> Net \<Rightarrow> HTTPProbeCmd \<Rightarrow> string \<Rightarrow> nat \<Rightarrow> Worker \<Rightarrow> (bool \<times> Worker) go" where
  "attempt p net cmd addr i w =
     (case add_headers (Headers cmd) (NewRequest net (Method cmd) addr (Body cmd)) of
        Panic x \<Rightarrow> Panic x
      | Return req1 \<Rightarrow>
     (case set_basic_auth cmd req1 of
        Panic x \<Rightarrow> Panic x
      | Return req2 \<Rightarrow>
     (case client_do net (callCount w) req2 of
        Panic x \<Rightarrow> Panic x
      | Return (r, out) \<Rightarrow>
          (let n = callCount w;
               w1 = emit [HttpDo n r] (w\<lparr>callCount := callCount w + 1\<rparr>);
               w2 = (case out of
                       Answered _ \<Rightarrow> (emit [ReadAll n] w1)\<lparr>deferred := n # deferred w1\<rparr>
                     | Failed _ (Some _) \<Rightarrow> (emit [ReadAll n] w1)\<lparr>deferred := n # deferred w1\<rparr>
                     | Failed _ None \<Rightarrow> w1);
               w3 = (if PrintState p then emit [Println (call_line p net cmd addr i n out)] w2 else w2)
           in case out of
                Answered _ \<Rightarrow> Return (True, w3\<lparr>okCount := okCount w3 + 1\<rparr>)
              | Failed err _ \<Rightarrow>
                  Return (False, emit [Sleep (backoff p err)] (w3\<lparr>errCount := errCount w3 + 1\<rparr>))))))"

subsection \<open>The four nested loops (lines 146-252) and the goroutine\<close>

fun retry_loop ::
  "CustomProbe \<Rightarrow> Net \<Rightarrow> HTTPProbeCmd \<Rightarrow> string \<Rightarrow> nat \<Rightarrow> nat \<Rightarrow> Worker \<Rightarrow> Worker go" where
  "retry_loop p net cmd addr 0 i w = Return w"
| "retry_loop p net cmd addr (Suc left) i w =
     (case attempt p net cmd addr i w of
        Panic x \<Rightarrow> Panic x
      | Return (True, w') \<Rightarrow> Return w'
      | Return (False, w') \<Rightarrow> retry_loop p net cmd addr left (i + 1) w')"

definition protocols :: "HTTPProbeCmd \<Rightarrow> string list" where
  "protocols cmd = (if Protocol cmd = [] then [''http'', ''https''] else [Protocol cmd])"

definition target :: "CustomProbe \<Rightarrow> string \<Rightarrow> string \<Rightarrow> HTTPProbeCmd \<Rightarrow> string" where
  "target p proto port cmd =
     proto @ ''://'' @ DockerHostIP (ContainerInspector p) @ '':'' @ port @ Resource cmd"

fun proto_loop ::
  "CustomProbe \<Rightarrow> Net \<Rightarrow> string \<Rightarrow> HTTPProbeCmd \<Rightarrow> string list \<Rightarrow> Worker \<Rightarrow> Worker go" where
  "proto_loop p net port cmd [] w = Return w"
| "proto_loop p net port cmd (proto # rest) w =
     (case retry_loop p net cmd (target p proto port cmd) (nat (sint (maxRetryCount p))) 0 w of
        Panic x \<Rightarrow> Panic x
      | Return w' \<Rightarrow> proto_loop p net port cmd rest w')"

fun cmd_loop :: "CustomProbe \<Rightarrow> Net \<Rightarrow> string \<Rightarrow> HTTPProbeCmd list \<Rightarrow> Worker \<Rightarrow> Worker go" where
  "cmd_loop p net port [] w = Return w"
| "cmd_loop p net port (cmd # rest) w =
     (case proto_loop p net port cmd (protocols cmd) w of
        Panic x \<Rightarrow> Panic x
      | Return w' \<Rightarrow> cmd_loop p net port rest w')"

fun port_loop :: "CustomProbe \<Rightarrow> Net \<Rightarrow> string list \<Rightarrow> Worker \<Rightarrow> Worker go" where
  "port_loop p net [] w = Return w"
| "port_loop p net (port # rest) w =
     (if 0 < okCount w \<and> \<not> ProbeFull p then Return w
      else (case cmd_loop p net port (Cmds p) w of
              Panic x \<Rightarrow> Panic x
            | Return w' \<Rightarrow> port_loop p net rest w'))"

text \<open>
  The goroutine of \<open>Start\<close> (lines 123-272): the warm-up sleep, the loops, the
  summary, the closing of the done channel, and then, as the function returns, the
  deferred closes, last deferred first.
\<close>

definition summary_lines :: "CustomProbe \<Rightarrow> Worker \<Rightarrow> event list" where
  "summary_lines p w =
     [Println (PrintPrefix p @ '' info=http.probe.summary total='' @ Itoa (callCount w) @
                '' failures='' @ Itoa (errCount w) @ '' successful='' @ Itoa (okCount w)),
      Println (PrintPrefix p @ '' state=http.probe.done '' @
                (if callCount w = 0 then ''warning=no.calls''
                 else if okCount w = 0 then ''warning=no.successful.calls'' else []))]"

definition worker :: "CustomProbe \<Rightarrow> Net \<Rightarrow> Worker go" where
  "worker p net =
     (let w0 = \<lparr> callCount = 0, errCount = 0, okCount = 0, deferred = [],
                 trace = Sleep (9 * Second) #
                         (if PrintState p then [Println (PrintPrefix p @ '' state=http.probe.running'')]
                          else []) \<rparr>
      in case port_loop p net (Ports p) w0 of
           Panic x \<Rightarrow> Panic x
         | Return w \<Rightarrow>
             (let w1 = (if PrintState p then emit (summary_lines p w) w else w);
                  w2 = emit [CloseDone] w1
              in Return ((emit (map CloseBody (deferred w2)) w2)\<lparr>deferred := []\<rparr>)))"

text \<open>
  \<open>Start\<close> prints its line (lines 119-121) and spawns the goroutine; the events of
  the probe are the line followed by those of the goroutine.
\<close>

definition Start_line :: "CustomProbe \<Rightarrow> event list" where
  "Start_line p =
     (if PrintState p
      then [Println (PrintPrefix p @ '' state=http.probe.starting message='' @ [CHR 0x27] @
                     ''WAIT FOR HTTP PROBE TO FINISH'' @ [CHR 0x27])]
      else [])"

definition Start :: "CustomProbe \<Rightarrow> Net \<Rightarrow> event list go" where
  "Start p net =
     (case worker p net of
        Panic x \<Rightarrow> Panic x
      | Return w \<Rightarrow> Return (Start_line p @ trace w))"

text \<open>
  The request that reaches \<open>httpClient.Do\<close> when \<open>http.NewRequest\<close> succeeds: the
  well-formed header lines in order, and the credentials when either is set.
\<close>

definition probe_request :: "HTTPProbeCmd \<Rightarrow> string \<Rightarrow> Request" where
  "probe_request cmd addr =
     \<lparr> req_method = Method cmd, req_url = addr,
       req_header = map (\<lambda>(hname, hvalue). (TrimSpace hname, TrimSpace hvalue))
                        (List.map_filter SplitN2 (Headers cmd)),
       req_auth = (if Username cmd \<noteq> [] \<or> Password cmd \<noteq> []
                   then Some (Username cmd, Password cmd) else None),
       req_body = Body cmd \<rparr>"

section \<open>The commands: \<open>OnBuild\<close> (build.go) and \<open>OnProfile\<close>\<close>

subsection \<open>Runs of straight-line code with early exits\<close>

text \<open>
  A command ends by returning, by \<open>os.Exit\<close> with a code, by a fatal error
  (\<open>errutil.FailOn\<close> and \<open>errutil.Fail\<close> log the error and end the process), or by a
  panic. Both commands are sequences of steps on the foreground thread; a step either
  leaves its events and goes on, or leaves its events and ends the run. Which of the
  two a step does is decided by the parameters of the command and by what the
  collaborators answer.
\<close>

datatype ending = Returned | Exit int | Fatal string | Panicked panic

datatype step = Go "event list" | Stop "event list" ending

fun run :: "step list \<Rightarrow> event list \<times> ending" where
  "run [] = ([], Returned)"
| "run (Go es # rest) = (case run rest of (es', e) \<Rightarrow> (es @ es', e))"
| "run (Stop es e # rest) = (es, e)"

text \<open>A step that goes on, and the events of a sequence of steps that all go on.\<close>

fun is_Go :: "step \<Rightarrow> bool" where
  "is_Go (Go es) = True"
| "is_Go (Stop es e) = False"

fun events_of :: "step \<Rightarrow> event list" where
  "events_of (Go es) = es"
| "events_of (Stop es e) = es"

definition FailOn :: "string option \<Rightarrow> step" where
  "FailOn err = (case err of None \<Rightarrow> Go [] | Some e \<Rightarrow> Stop [] (Fatal e))"

definition WarnOn :: "string option \<Rightarrow> event list" where
  "WarnOn err = (case err of None \<Rightarrow> [] | Some e \<Rightarrow> [Warn e])"

subsection \<open>Formatting\<close>

definition quoted :: "string \<Rightarrow> string" where
  "quoted s = [CHR 0x27] @ s @ [CHR 0x27]"

definition Itoa_int :: "int \<Rightarrow> string" where
  "Itoa_int k = (if k < 0 then ''-'' @ Itoa (nat (- k)) else Itoa (nat k))"

definition show_bool :: "bool \<Rightarrow> string" where
  "show_bool b = (if b then ''true'' else ''false'')"

fun Join :: "string list \<Rightarrow> string \<Rightarrow> string" where
  "Join [] sep = []"
| "Join [x] sep = x"
| "Join (x # y # ys) sep = x @ sep @ Join (y # ys) sep"

fun split_at :: "char \<Rightarrow> string \<Rightarrow> string \<Rightarrow> string list" where
  "split_at sep cur [] = [cur]"
| "split_at sep cur (c # cs) =
     (if c = sep then cur # split_at sep [] cs else split_at sep (cur @ [c]) cs)"

text \<open>\<open>strings.Split(s, ":")\<close>.\<close>

definition Split :: "string \<Rightarrow> string list" where
  "Split s = split_at (CHR '':'') [] s"

subsection \<open>Parameters and collaborators\<close>

text \<open>
  The parameters of \<open>OnBuild\<close> that decide its run or appear in its output;
  \<open>OnProfile\<close> takes those of them that it has. \<open>overrides_Network\<close> is
  \<open>overrides.Network\<close>, \<open>continueAfter_Mode\<close> and \<open>continueAfter_Timeout\<close> are the
  fields of \<open>continueAfter\<close>.
\<close>

record Params =
  doDebug :: bool
  buildFromDockerfile :: string
  imageRef :: string
  customImageTag :: string
  doHTTPProbe :: bool
  httpProbeCmds :: "HTTPProbeCmd list"
  httpProbeRetryCount :: go_int
  httpProbeRetryWait :: go_int
  httpProbePorts :: "16 word list"
  doHTTPProbeFull :: bool
  doRmFileArtifacts :: bool
  copyMetaArtifactsLocation :: string
  doShowBuildLogs :: bool
  overrides_Network :: string
  continueAfter_Mode :: string
  continueAfter_Timeout :: int

text \<open>
  What the collaborators answer in a run: the errors they return (\<open>None\<close> is nil),
  the booleans they report, and the values that are printed. \<open>containerInspector\<close> is
  the container inspector once the container runs; its \<open>DockerfileInfo\<close> is that of the
  image inspector it holds. \<open>humanize_Bytes\<close> is \<open>humanize.Bytes\<close>, \<open>MinifiedBy_text\<close> the
  size ratio as \<open>%.2f\<close> prints it, \<open>tmp_fat_image\<close> the name made of the process id and
  the time, \<open>range_order\<close> the order in which the runtime ranges over a Go map.
\<close>

record World =
  v_Current :: string
  confirmNetwork :: bool
  tmp_fat_image :: string
  NewBasicImageBuilder_err :: "string option"
  fatBuilder_Build_err :: "string option"
  fatBuilder_BuildLog :: string
  NewInspector_err :: "string option"
  NoImage :: bool
  Inspect_err :: "string option"
  ImageInfo_ID :: string
  ImageInfo_VirtualSize :: int
  humanize_Bytes :: "int \<Rightarrow> string"
  image_ProcessCollectedData_err :: "string option"
  container_NewInspector_err :: "string option"
  RunContainer_err :: "string option"
  containerInspector :: Inspector
  range_order :: KeyOrder
  ShutdownContainer_err :: "string option"
  HasCollectedData :: bool
  container_ProcessCollectedData_err :: "string option"
  SlimImageRepo :: string
  NewImageBuilder_err :: "string option"
  builder_HasData :: bool
  builder_Build_err :: "string option"
  builder_BuildLog :: string
  builder_RepoName :: string
  new_NewInspector_err :: "string option"
  new_NoImage :: bool
  new_Inspect_err :: "string option"
  new_VirtualSize :: int
  MinifiedBy_text :: string
  ArtifactLocation :: string
  SeccompProfileName :: string
  AppArmorProfileName :: string
  DefaultContainerReportFileName :: string
  copyMetaArtifacts_ok :: bool
  Remove_err :: "string option"

subsection \<open>\<open>OnBuild\<close>\<close>

text \<open>Lines 83-99: the name of the basic image, \<open>None\<close> for a tag with two colons or more.\<close>

definition fatImageRepoNameTag :: "Params \<Rightarrow> World \<Rightarrow> string option" where
  "fatImageRepoNameTag p w =
     (if customImageTag p \<noteq> [] then
        (case Split (customImageTag p) of
           [_] \<Rightarrow> Some (customImageTag p @ ''.fat'')
         | [name, tag] \<Rightarrow> Some (name @ ''.fat:'' @ tag)
         | _ \<Rightarrow> None)
      else Some (tmp_fat_image w))"

text \<open>Lines 80-124: building the basic image from a Dockerfile.\<close>

definition basic_image_steps :: "Params \<Rightarrow> World \<Rightarrow> step list" where
  "basic_image_steps p w =
     (if buildFromDockerfile p = [] then []
      else
        [Go [Println (''docker-slim[build]: state=building message='' @ quoted ''building basic image'')],
         (case fatImageRepoNameTag p w of
            None \<Rightarrow>
              Stop [Println (''docker-slim[build]: info=param.error status=malformed.custom.image.tag value='' @
                             customImageTag p),
                    Println (''docker-slim[build]: state=exited version='' @ v_Current w)]
                   (Exit (- 1))
          | Some tag \<Rightarrow> Go [Println (''docker-slim[build]: info=basic.image.name value='' @ tag)]),
         FailOn (NewBasicImageBuilder_err w),
         Go (BuildBasicImage #
             (if doShowBuildLogs p
              then [Println ''docker-slim[build]: build logs (basic image) ===================='',
                    Println (fatBuilder_BuildLog w),
                    Println ''docker-slim[build]: end of build logs (basic image) ============='']
              else [])),
         FailOn (fatBuilder_Build_err w),
         Go [Println ''docker-slim[build]: state=basic.image.build.completed'']])"

text \<open>Line 122: the image inspected is the basic image when one was built.\<close>

definition build_imageRef :: "Params \<Rightarrow> World \<Rightarrow> string" where
  "build_imageRef p w =
     (if buildFromDockerfile p = [] then imageRef p
      else (case fatImageRepoNameTag p w of None \<Rightarrow> imageRef p | Some tag \<Rightarrow> tag))"

text \<open>Lines 169-189: what is printed of \<open>DockerfileInfo\<close>.\<close>

definition dockerfile_lines :: "World \<Rightarrow> event list" where
  "dockerfile_lines w =
     (case DockerfileInfo (containerInspector w) of
        None \<Rightarrow> []
      | Some info \<Rightarrow>
          (if ExeUser info \<noteq> []
           then [Println (''docker-slim[build]: info=image.users exe='' @ quoted (ExeUser info) @
                          '' all='' @ quoted (Join (AllUsers info) '',''))]
           else []) @
          map (\<lambda>(idx, (name, ident)).
                 Println (''docker-slim[build]: info=image.stack index='' @ Itoa idx @
                          '' name='' @ quoted name @ '' id='' @ quoted ident))
              (zip [0 ..< length (ImageStack info)] (ImageStack info)) @
          (if ExposedPorts info \<noteq> []
           then [Println (''docker-slim[build]: info=image.exposed_ports list='' @
                          quoted (Join (ExposedPorts info) '',''))]
           else []))"

text \<open>Lines 227-248: the probe.\<close>

definition build_probe_step :: "Params \<Rightarrow> World \<Rightarrow> step" where
  "build_probe_step p w =
     (if doHTTPProbe p \<or> continueAfter_Mode p = ''probe'' then
        (case NewCustomProbe (range_order w) (containerInspector w) (httpProbeCmds p)
                (httpProbeRetryCount p) (httpProbeRetryWait p) (httpProbePorts p)
                (doHTTPProbeFull p) True ''docker-slim[build]:'' of
           Panic x \<Rightarrow> Stop [] (Panicked x)
         | Return (probe, Some err) \<Rightarrow> Stop [] (Fatal err)
         | Return (probe, None) \<Rightarrow>
             if Ports probe = [] then
               Stop [Println (''docker-slim[build]: state=http.probe.error error='' @
                              quoted ''no exposed ports'' @ '' message='' @ [CHR 0x27] @
                              ''expose your service port with --expose or disable HTTP probing with --http-probe=false if your containerized application doesnt expose any network services''),
                     FinishMonitoring,
                     ShutdownContainer,
                     Println ''docker-slim[build]: state=exited'']
                    Returned
             else Go (Start_line probe @ [StartProbe]))
      else Go [])"

text \<open>Lines 250-269: waiting for the continue-after condition.\<close>

definition build_continue_step :: "Params \<Rightarrow> step" where
  "build_continue_step p =
     (if continueAfter_Mode p = ''enter'' then
        Go [Println (''docker-slim[build]: info=prompt message='' @
                     quoted ''USER INPUT REQUIRED, PRESS <ENTER> WHEN YOU ARE DONE USING THE CONTAINER''),
            WaitEnter]
      else if continueAfter_Mode p = ''signal'' then
        Go [Println (''docker-slim[build]: info=prompt message='' @
                     quoted ''send SIGUSR1 when you are done using the container''),
            WaitSignal,
            Println (''docker-slim[build]: info=event message='' @ quoted ''got SIGUSR1'')]
      else if continueAfter_Mode p = ''timeout'' then
        Go [Println (''docker-slim[build]: info=prompt message='' @
                     quoted (''waiting for the target container ('' @
                             Itoa_int (continueAfter_Timeout p) @ '' seconds)'')),
            WaitTimeout,
            Stdout (''docker-slim[build]: info=event message='' @
                    quoted ''done waiting for the target container'')]
      else if continueAfter_Mode p = ''probe'' then
        Go [Println (''docker-slim[build]: info=prompt message='' @
                     quoted ''waiting for the HTTP probe to finish''),
            WaitProbe,
            Println (''docker-slim[build]: info=event message='' @ quoted ''HTTP probe is done'')]
      else Stop [] (Fatal ''unknown continue-after mode''))"

text \<open>
  Lines 340-377 and 386-396: the results. \<open>MinifiedImageSizeHuman\<close> is set only when
  the minified image could be inspected.
\<close>

definition build_result_lines :: "Params \<Rightarrow> World \<Rightarrow> event list" where
  "build_result_lines p w =
     (if new_Inspect_err w = None
      then [Println (''docker-slim[build]: info=results status='' @
                     quoted (''MINIFIED BY '' @ MinifiedBy_text w @ ''X ['' @
                             Itoa_int (ImageInfo_VirtualSize w) @ '' ('' @
                             humanize_Bytes w (ImageInfo_VirtualSize w) @ '') => '' @
                             Itoa_int (new_VirtualSize w) @ '' ('' @
                             humanize_Bytes w (new_VirtualSize w) @ '')]''))]
      else []) @
     [Println (''docker-slim[build]: info=results  image.name='' @ builder_RepoName w @
               '' image.size='' @
               quoted (if new_Inspect_err w = None then humanize_Bytes w (new_VirtualSize w) else []) @
               '' data='' @ show_bool (builder_HasData w)),
      Println (''docker-slim[build]: info=results  artifacts.location='' @ quoted (ArtifactLocation w)),
      Println (''docker-slim[build]: info=results  artifacts.report='' @ DefaultContainerReportFileName w),
      Println ''docker-slim[build]: info=results  artifacts.dockerfile.original=Dockerfile.fat'',
      Println ''docker-slim[build]: info=results  artifacts.dockerfile.new=Dockerfile'',
      Println (''docker-slim[build]: info=results  artifacts.seccomp='' @ SeccompProfileName w),
      Println (''docker-slim[build]: info=results  artifacts.apparmor='' @ AppArmorProfileName w)]"

text \<open>
  The whole command in parts: lines 73-223 up to the running container, the probe
  and the continue-after wait, lines 271-435, and the end. The report is created with state \<open>Started\<close>
  (line 68), set to \<open>Completed\<close> at line 325 and to \<open>Error\<close> at line 375, and set to
  \<open>Done\<close> at line 442, just before the only \<open>Save\<close> of the function (line 443). Lines
  written through the logger go to standard error and are not events. The receive from
  the version check (line 439) and the continue-after waits are taken to end.
\<close>

definition build_start_steps :: "Params \<Rightarrow> World \<Rightarrow> step list" where
  "build_start_steps p w =
     [Go [Println ''docker-slim[build]: state=started'',
          (if buildFromDockerfile p = []
           then Println (''docker-slim[build]: info=params target='' @ imageRef p @
                         '' continue.mode='' @ continueAfter_Mode p)
           else Println (''docker-slim[build]: info=params context='' @ imageRef p @ ''/file='' @
                         buildFromDockerfile p @ '' continue.mode='' @ continueAfter_Mode p))]] @
     basic_image_steps p w @
     [Go (if doDebug p then [VersionPrint] else []),
      (if \<not> confirmNetwork w
       then Stop [Println (''docker-slim[build]: info=param.error status=unknown.network value='' @
                           overrides_Network p),
                  Println (''docker-slim[build]: state=exited version='' @ v_Current w)]
                 (Exit (- 111))
       else Go []),
      FailOn (NewInspector_err w),
      (if NoImage w
       then Stop [Println (''docker-slim[build]: target image not found - '' @ build_imageRef p w),
                  Println ''docker-slim[build]: state=exited'']
                 Returned
       else Go []),
      Go [Println ''docker-slim[build]: state=image.inspection.start'', Inspect],
      FailOn (Inspect_err w),
      Go [Println (''docker-slim[build]: info=image id='' @ ImageInfo_ID w @
                   '' size.bytes='' @ Itoa_int (ImageInfo_VirtualSize w) @
                   '' size.human='' @ humanize_Bytes w (ImageInfo_VirtualSize w)),
          ProcessImageData],
      FailOn (image_ProcessCollectedData_err w),
      Go (dockerfile_lines w),
      Go [Println ''docker-slim[build]: state=image.inspection.done'',
          Println ''docker-slim[build]: state=container.inspection.start''],
      FailOn (container_NewInspector_err w),
      Go [RunContainer],
      FailOn (RunContainer_err w),
      Go [Println (''docker-slim[build]: info=container name='' @ ContainerName (containerInspector w) @
                   '' id='' @ ContainerID (containerInspector w) @
                   '' target.port.list=['' @ ContainerPortList (containerInspector w) @
                   ''] target.port.info=['' @ ContainerPortsInfo (containerInspector w) @
                   ''] message='' @
                   quoted ''YOU CAN USE THESE PORTS TO INTERACT WITH THE CONTAINER'')]]"

definition build_finish_steps :: "Params \<Rightarrow> World \<Rightarrow> step list" where
  "build_finish_steps p w =
     [Go ([Println ''docker-slim[build]: state=container.inspection.finishing'',
           FinishMonitoring,
           ShutdownContainer] @
          WarnOn (ShutdownContainer_err w) @
          [Println ''docker-slim[build]: state=container.inspection.artifact.processing'']),
      (if \<not> HasCollectedData w
       then Stop [ShowFatImageDockerInstructions,
                  Println (''docker-slim[build]: info=results status='' @
                           quoted (''no data collected (no minified image generated). (version: '' @
                                   v_Current w @ '')'')),
                  Println ''docker-slim[build]: state=exited'']
                 Returned
       else Go []),
      Go [ProcessContainerData],
      FailOn (container_ProcessCollectedData_err w),
      Go [Println ''docker-slim[build]: state=container.inspection.done'',
          Println (''docker-slim[build]: state=building message='' @ quoted ''building minified image'')],
      FailOn (NewImageBuilder_err w),
      Go (BuildImage #
          (if doShowBuildLogs p
           then [Println ''docker-slim[build]: build logs ===================='',
                 Println (builder_BuildLog w),
                 Println ''docker-slim[build]: end of build logs ============='']
           else [])),
      FailOn (builder_Build_err w),
      Go [Println ''docker-slim[build]: state=completed''],
      FailOn (new_NewInspector_err w),
      (if new_NoImage w
       then Stop [Println (''docker-slim[build]: info=results message='' @
                           quoted (''minified image not found - '' @ builder_RepoName w)),
                  Println ''docker-slim[build]: state=exited'']
                 Returned
       else Go []),
      Go (WarnOn (new_Inspect_err w)),
      Go (build_result_lines p w),
      Go (if copyMetaArtifactsLocation p \<noteq> []
          then CopyMetaArtifacts #
               (if \<not> copyMetaArtifacts_ok w
                then [Println (''docker-slim[build]: info=artifacts message='' @
                               quoted ''could not copy meta artifacts'')]
                else [])
          else []),
      Go (if doRmFileArtifacts p then RemoveArtifacts # WarnOn (Remove_err w) else [])]"

text \<open>Lines 437-443: the end of the command, where the report is saved.\<close>

definition build_final_step :: step where
  "build_final_step =
     Go [Println ''docker-slim[build]: state=done'',
         PrintCheckVersion,
         Save CmdStateDone]"

definition OnBuild_steps :: "Params \<Rightarrow> World \<Rightarrow> step list" where
  "OnBuild_steps p w =
     build_start_steps p w @ [build_probe_step p w, build_continue_step p] @ build_finish_steps p w @
     [build_final_step]"

definition OnBuild :: "Params \<Rightarrow> World \<Rightarrow> event list \<times> ending" where
  "OnBuild p w = run (OnBuild_steps p w)"

subsection \<open>\<open>OnProfile\<close>\<close>

text \<open>Lines 139-160 of the profile command: the probe.\<close>

definition profile_probe_step :: "Params \<Rightarrow> World \<Rightarrow> step" where
  "profile_probe_step p w =
     (if doHTTPProbe p \<or> continueAfter_Mode p = ''probe'' then
        (case NewCustomProbe (range_order w) (containerInspector w) (httpProbeCmds p)
                (httpProbeRetryCount p) (httpProbeRetryWait p) (httpProbePorts p)
                (doHTTPProbeFull p) True ''docker-slim[profile]:'' of
           Panic x \<Rightarrow> Stop [] (Panicked x)
         | Return (probe, Some err) \<Rightarrow> Stop [] (Fatal err)
         | Return (probe, None) \<Rightarrow>
             if Ports probe = [] then
               Stop [Println (''docker-slim[profile]: state=http.probe.error error='' @
                              quoted ''no exposed ports'' @ '' message='' @ [CHR 0x27] @
                              ''expose your service port with --expose or disable HTTP probing with --http-probe=false if your containerized application doesnt expose any network services''),
                     FinishMonitoring,
                     ShutdownContainer,
                     Println ''docker-slim[profile]: state=exited'']
                    Returned
             else Go (Start_line probe @ [StartProbe]))
      else Go [])"

text \<open>Lines 162-181: waiting for the continue-after condition.\<close>

definition profile_continue_step :: "Params \<Rightarrow> step" where
  "profile_continue_step p =
     (if continueAfter_Mode p = ''enter'' then
        Go [Println (''docker-slim[profile]: info=prompt message='' @
                     quoted ''USER INPUT REQUIRED, PRESS <ENTER> WHEN YOU ARE DONE USING THE CONTAINER''),
            WaitEnter]
      else if continueAfter_Mode p = ''signal'' then
        Go [Println (''docker-slim[profile]: info=prompt message='' @
                     quoted ''send SIGUSR1 when you are done using the container''),
            WaitSignal,
            Println (''docker-slim[profile]: info=event message='' @ quoted ''got SIGUSR1'')]
      else if continueAfter_Mode p = ''timeout'' then
        Go [Println (''docker-slim[profile]: info=prompt message='' @
                     quoted (''waiting for the target container ('' @
                             Itoa_int (continueAfter_Timeout p) @ '' seconds)'')),
            WaitTimeout,
            Stdout (''docker-slim[profile]: info=event message='' @
                    quoted ''done waiting for the target container'')]
      else if continueAfter_Mode p = ''probe'' then
        Go [Println (''docker-slim[profile]: info=prompt message='' @
                     quoted ''waiting for the HTTP probe to finish''),
            WaitProbe,
            Println (''docker-slim[profile]: info=event message='' @ quoted ''HTTP probe is done'')]
      else Stop [] (Fatal ''unknown continue-after mode''))"

text \<open>
  The whole command, in the same parts. \<open>doRmFileArtifacts\<close> is the constant
  \<open>false\<close> (line 62), so lines 222-226 leave no event. The state of the report is set
  as in \<open>OnBuild\<close>: \<open>Started\<close> at line 57, \<open>Completed\<close> at line 207, \<open>Done\<close> at line
  233, before the only \<open>Save\<close> at line 234.
\<close>

definition profile_start_steps :: "Params \<Rightarrow> World \<Rightarrow> step list" where
  "profile_start_steps p w =
     [Go [Println ''docker-slim[profile]: state=started'',
          Println (''docker-slim[profile]: info=params target='' @ imageRef p)],
      Go (if doDebug p then [VersionPrint] else []),
      (if \<not> confirmNetwork w
       then Stop [Println (''docker-slim[profile]: info=param.error status=unknown.network value='' @
                           overrides_Network p),
                  Println (''docker-slim[profile]: state=exited version='' @ v_Current w)]
                 (Exit (- 111))
       else Go []),
      FailOn (NewInspector_err w),
      (if NoImage w
       then Stop [Println (''docker-slim[profile]: target image not found - '' @ imageRef p),
                  Println ''docker-slim[profile]: state=exited'']
                 Returned
       else Go []),
      Go [Println ''docker-slim[profile]: state=image.inspection.start'', Inspect],
      FailOn (Inspect_err w),
      Go [Println (''docker-slim[profile]: info=image id='' @ ImageInfo_ID w @
                   '' size.bytes='' @ Itoa_int (ImageInfo_VirtualSize w) @
                   '' size.human='' @ humanize_Bytes w (ImageInfo_VirtualSize w)),
          ProcessImageData],
      FailOn (image_ProcessCollectedData_err w),
      Go [Println ''docker-slim[profile]: state=image.inspection.done'',
          Println ''docker-slim[profile]: state=container.inspection.start''],
      FailOn (container_NewInspector_err w),
      Go [RunContainer],
      FailOn (RunContainer_err w),
      Go [Println (''docker-slim[build]: info=container name='' @ ContainerName (containerInspector w) @
                   '' id='' @ ContainerID (containerInspector w) @
                   '' target.port.list=['' @ ContainerPortList (containerInspector w) @
                   ''] target.port.info=['' @ ContainerPortsInfo (containerInspector w) @
                   ''] message='' @
                   quoted ''YOU CAN USE THESE PORTS TO INTERACT WITH THE CONTAINER'')]]"

definition profile_finish_steps :: "Params \<Rightarrow> World \<Rightarrow> step list" where
  "profile_finish_steps p w =
     [Go ([Println ''docker-slim[profile]: state=container.inspection.finishing'',
           FinishMonitoring,
           ShutdownContainer] @
          WarnOn (ShutdownContainer_err w) @
          [Println ''docker-slim[profile]: state=container.inspection.artifact.processing'']),
      (if \<not> HasCollectedData w
       then Stop [ShowFatImageDockerInstructions,
                  Println (''docker-slim[profile]: info=results status='' @
                           quoted (''no data collected (no minified image generated). (version: '' @
                                   v_Current w @ '')'')),
                  Println ''docker-slim[profile]: state=exited'']
                 Returned
       else Go []),
      Go [ProcessContainerData],
      FailOn (container_ProcessCollectedData_err w),
      Go [Println ''docker-slim[profile]: state=container.inspection.done'',
          Println ''docker-slim[profile]: state=completed''],
      Go (if copyMetaArtifactsLocation p \<noteq> []
          then CopyMetaArtifacts #
               (if \<not> copyMetaArtifacts_ok w
                then [Println (''docker-slim[profile]: info=artifacts message='' @
                               quoted ''could not copy meta artifacts'')]
                else [])
          else [])]"

text \<open>Lines 228-234: the end of the command, where the report is saved.\<close>

definition profile_final_step :: step where
  "profile_final_step =
     Go [Println ''docker-slim[profile]: state=done'',
         PrintCheckVersion,
         Save CmdStateDone]"

definition OnProfile_steps :: "Params \<Rightarrow> World \<Rightarrow> step list" where
  "OnProfile_steps p w =
     profile_start_steps p w @ [profile_probe_step p w, profile_continue_step p] @ profile_finish_steps p w @
     [profile_final_step]"

definition OnProfile :: "Params \<Rightarrow> World \<Rightarrow> event list \<times> ending" where
  "OnProfile p w = run (OnProfile_steps p w)"

subsection \<open>The plan as section 4.1 of the specification describes it\<close>

text \<open>
  \<open>first_host m p\<close> is the host port of the first binding of container port \<open>p\<close>,
  the value lines 76 and 94 read; \<open>None\<close> when \<open>p\<close> is not bound.
\<close>

definition first_host :: "PortMap \<Rightarrow> Port \<Rightarrow> string option" where
  "first_host m p = (case map_of m p of Some (b # _) \<Rightarrow> Some (HostPort b) | _ \<Rightarrow> None)"

text \<open>The declared exposed ports of the image, none when there is no \<open>DockerfileInfo\<close>.\<close>

definition exposed :: "Inspector \<Rightarrow> string list" where
  "exposed inspector = (case DockerfileInfo inspector of None \<Rightarrow> [] | Some info \<Rightarrow> ExposedPorts info)"

text \<open>
  The specification's prefix of the plan: the exposed ports from last to first,
  normalised, unbound ones skipped, each replaced by its host port.
\<close>

definition spec_exposed_prefix :: "PortMap \<Rightarrow> string list \<Rightarrow> string list" where
  "spec_exposed_prefix m declared = List.map_filter (first_host m) (map normalize_port (rev declared))"

text \<open>
  The specification's available host ports: the first host port of every entry of the
  bound map whose key is not a control port.
\<close>

definition spec_available :: "Inspector \<Rightarrow> string set" where
  "spec_available inspector =
     set (List.map_filter
            (\<lambda>(k, bs). if k = CmdPort inspector \<or> k = EvtPort inspector then None
                        else (case bs of [] \<Rightarrow> None | b # _ \<Rightarrow> Some (HostPort b)))
            (NetworkPorts inspector))"

section \<open>Concrete containers\<close>

definition bind :: "string \<Rightarrow> PortBinding list" where
  "bind h = [\<lparr>HostIP = ''0.0.0.0'', HostPort = h\<rparr>]"

text \<open>
  A container in the style of scenario S1: three exposed ports, one further published
  port, and the two control ports of the sensor.
\<close>

definition S1_inspector :: Inspector where
  "S1_inspector =
     \<lparr> NetworkPorts = [(''65501/tcp'', bind ''32768''), (''80/tcp'', bind ''32780''),
                        (''9000/tcp'', bind ''32790''), (''443/tcp'', bind ''32781''),
                        (''65502/tcp'', bind ''32769''), (''8080/tcp'', bind ''32783'')],
       CmdPort = ''65501/tcp'', EvtPort = ''65502/tcp'',
       DockerfileInfo = Some \<lparr> ExeUser = [], AllUsers = [], ImageStack = [],
                               ExposedPorts = [''80'', ''443/tcp'', ''8080''] \<rparr>,
       DockerHostIP = ''127.0.0.1'', ContainerName = ''slimk_1'', ContainerID = ''4f2a'',
       ContainerPortList = ''32780,32781,32783,32790'',
       ContainerPortsInfo = ''80/tcp => 0.0.0.0:32780'' \<rparr>"

text \<open>
  A container whose only published port is the command port of the sensor, probed
  with that port as the target.
\<close>

definition control_only_inspector :: Inspector where
  "control_only_inspector =
     \<lparr> NetworkPorts = [(''65501/tcp'', bind ''32768'')],
       CmdPort = ''65501/tcp'', EvtPort = ''65502/tcp'',
       DockerfileInfo = Some \<lparr> ExeUser = [], AllUsers = [], ImageStack = [],
                               ExposedPorts = [] \<rparr>,
       DockerHostIP = ''127.0.0.1'', ContainerName = ''slimk_3'', ContainerID = ''77b0'',
       ContainerPortList = [], ContainerPortsInfo = [] \<rparr>"

text \<open>A container whose port 80 is listed in the bound map with no binding.\<close>

definition unbound_inspector :: Inspector where
  "unbound_inspector =
     \<lparr> NetworkPorts = [(''65501/tcp'', bind ''32768''), (''80/tcp'', [])],
       CmdPort = ''65501/tcp'', EvtPort = ''65502/tcp'',
       DockerfileInfo = Some \<lparr> ExeUser = [], AllUsers = [], ImageStack = [],
                               ExposedPorts = [''80''] \<rparr>,
       DockerHostIP = ''127.0.0.1'', ContainerName = ''slimk_2'', ContainerID = ''9c1e'',
       ContainerPortList = [], ContainerPortsInfo = [] \<rparr>"

section \<open>Concrete probes and worlds\<close>

text \<open>The default command \<open>GET /\<close> over http, and the same with no protocol given.\<close>

definition get_root :: HTTPProbeCmd where
  "get_root = \<lparr> Protocol = ''http'', Method = ''GET'', Resource = ''/'', Headers = [],
                 Body = [], Username = [], Password = [] \<rparr>"

definition get_any :: HTTPProbeCmd where
  "get_any = get_root\<lparr>Protocol := []\<rparr>"

text \<open>A command whose method holds a space, which \<open>http.NewRequest\<close> rejects.\<close>

definition bad_method :: HTTPProbeCmd where
  "bad_method = get_root\<lparr>Method := ''GET /''\<rparr>"

definition probe_with :: "HTTPProbeCmd list \<Rightarrow> string list \<Rightarrow> go_int \<Rightarrow> bool \<Rightarrow> CustomProbe" where
  "probe_with cmds ports retryWait full =
     \<lparr> PrintState = False, PrintPrefix = ''docker-slim[build]:'', Ports = ports, Cmds = cmds,
       RetryCount = 0, RetryWait = retryWait, TargetPorts = [], ProbeFull = full,
       ContainerInspector = S1_inspector \<rparr>"

text \<open>
  A target that answers every call with 200, and one that fails every call with the
  given error. Both reject a method that holds a space.
\<close>

definition net_ok :: Net where
  "net_ok = \<lparr> NewRequest_ok = (\<lambda>method url. CHR '' '' \<notin> set method),
               Do = (\<lambda>n r. Answered \<lparr>StatusCode = 200\<rparr>),
               Now = (\<lambda>n. ''2018-06-01T00:00:00Z'') \<rparr>"

definition net_failing :: "call_error \<Rightarrow> Net" where
  "net_failing err = \<lparr> NewRequest_ok = (\<lambda>method url. CHR '' '' \<notin> set method),
                        Do = (\<lambda>n r. Failed err None),
                        Now = (\<lambda>n. ''2018-06-01T00:00:00Z'') \<rparr>"

definition fresh :: Worker where
  "fresh = \<lparr> callCount = 0, errCount = 0, okCount = 0, deferred = [], trace = [] \<rparr>"

section \<open>A concrete run\<close>

text \<open>
  Profiling the image \<open>nginx\<close> with the probe enabled, on the container of
  \<open>S1_inspector\<close>, every collaborator succeeding.
\<close>

definition S_params :: Params where
  "S_params =
     \<lparr> doDebug = False, buildFromDockerfile = [], imageRef = ''nginx'', customImageTag = [],
       doHTTPProbe = True, httpProbeCmds = [get_root], httpProbeRetryCount = 0,
       httpProbeRetryWait = 0, httpProbePorts = [], doHTTPProbeFull = False,
       doRmFileArtifacts = False, copyMetaArtifactsLocation = [], doShowBuildLogs = False,
       overrides_Network = [], continueAfter_Mode = ''probe'', continueAfter_Timeout = 0 \<rparr>"

definition S_world :: World where
  "S_world =
     \<lparr> v_Current = ''1.22'', confirmNetwork = True, tmp_fat_image = ''docker-slim-tmp-fat-image.1.2'',
       NewBasicImageBuilder_err = None, fatBuilder_Build_err = None, fatBuilder_BuildLog = [],
       NewInspector_err = None, NoImage = False, Inspect_err = None, ImageInfo_ID = ''sha256:ab'',
       ImageInfo_VirtualSize = 1000, humanize_Bytes = (\<lambda>n. Itoa_int n @ '' B''),
       image_ProcessCollectedData_err = None, container_NewInspector_err = None,
       RunContainer_err = None, containerInspector = S1_inspector, range_order = (\<lambda>ks. ks),
       ShutdownContainer_err = None, HasCollectedData = True,
       container_ProcessCollectedData_err = None, SlimImageRepo = ''nginx.slim'',
       NewImageBuilder_err = None, builder_HasData = True, builder_Build_err = None,
       builder_BuildLog = [], builder_RepoName = ''nginx.slim'', new_NewInspector_err = None,
       new_NoImage = False, new_Inspect_err = None, new_VirtualSize = 100,
       MinifiedBy_text = ''10.00'', ArtifactLocation = ''/tmp/artifacts'',
       SeccompProfileName = ''nginx-seccomp.json'', AppArmorProfileName = ''nginx-apparmor-profile'',
       DefaultContainerReportFileName = ''creport.json'', copyMetaArtifacts_ok = True,
       Remove_err = None \<rparr>"

text \<open>The same container with nothing published but the two control ports.\<close>

definition no_ports_inspector :: Inspector where
  "no_ports_inspector =
     S1_inspector\<lparr> NetworkPorts := [(''65501/tcp'', bind ''32768''), (''65502/tcp'', bind ''32769'')],
                   DockerfileInfo := Some \<lparr> ExeUser = [], AllUsers = [], ImageStack = [],
                                            ExposedPorts = [] \<rparr> \<rparr>"

section \<open>Properties of the port planner\<close>


lemma availablePorts_loop_Return_iff:
  "(\<exists>av. availablePorts_loop c e m avail = Return av) \<longleftrightarrow>
   (\<forall>(k, bs) \<in> set m. k \<noteq> c \<and> k \<noteq> e \<longrightarrow> bs \<noteq> [])"
  by (induction c e m avail rule: availablePorts_loop.induct) (auto split: list.splits)

lemma availablePorts_loop_Panic:
  "availablePorts_loop c e m avail = Panic x \<Longrightarrow> x = IndexOutOfRange"
  by (induction c e m avail rule: availablePorts_loop.induct) (auto split: list.splits if_splits)

lemma availablePorts_loop_set:
  "availablePorts_loop c e m avail = Return av \<Longrightarrow>
   set av = set avail \<union> {HostPort b | k b bs. (k, b # bs) \<in> set m \<and> k \<noteq> c \<and> k \<noteq> e}"
proof (induction c e m avail arbitrary: av rule: availablePorts_loop.induct)
  case (1 c e avail)
  then show ?case by simp
next
  case (2 c e nsPortKey nsPortData rest avail)
  show ?case
  proof (cases "nsPortKey = c \<or> nsPortKey = e")
    case True
    with 2 show ?thesis by auto
  next
    case False
    with "2.prems" obtain b bs where nd: "nsPortData = b # bs"
      by (cases nsPortData) auto
    with False "2.prems" have "availablePorts_loop c e rest (List.insert (HostPort b) avail) = Return av"
      by simp
    from "2.IH"(2)[OF False nd this] nd False show ?thesis by auto
  qed
qed

lemma availablePorts_loop_distinct:
  "availablePorts_loop c e m avail = Return av \<Longrightarrow> distinct avail \<Longrightarrow> distinct av"
  by (induction c e m avail arbitrary: av rule: availablePorts_loop.induct)
     (auto split: list.splits if_splits)

lemma targetPorts_loop_Return:
  "targetPorts_loop m tps ports = Return ports' \<Longrightarrow>
   ports' = ports @ List.map_filter (first_host m) (map tcp_spec tps)"
  by (induction m tps ports rule: targetPorts_loop.induct)
     (auto simp: first_host_def split: option.splits list.splits)

lemma targetPorts_loop_Return_iff:
  "(\<exists>r. targetPorts_loop m tps ports = Return r) \<longleftrightarrow>
   (\<forall>p \<in> set tps. map_of m (tcp_spec p) \<noteq> Some [])"
  by (induction m tps ports rule: targetPorts_loop.induct)
     (auto split: option.splits list.splits)

lemma targetPorts_loop_Panic:
  "targetPorts_loop m tps ports = Panic x \<Longrightarrow> x = IndexOutOfRange"
  by (induction m tps ports rule: targetPorts_loop.induct)
     (auto split: option.splits list.splits)

lemma exposedPorts_loop_Return:
  "exposedPorts_loop m xs (ports, avail) = Return (ports', avail') \<Longrightarrow>
   ports' = ports @ List.map_filter (first_host m) (map normalize_port xs) \<and>
   set avail' = set avail - set (List.map_filter (first_host m) (map normalize_port xs)) \<and>
   (distinct avail \<longrightarrow> distinct avail')"
proof (induction xs arbitrary: ports avail)
  case Nil
  then show ?case by simp
next
  case (Cons portInfo rest)
  show ?case
  proof (cases "map_of m (normalize_port portInfo)")
    case None
    with Cons.prems have "exposedPorts_loop m rest (ports, avail) = Return (ports', avail')"
      by simp
    from Cons.IH[OF this] None show ?thesis
      by (simp add: first_host_def)
  next
    case (Some bs)
    with Cons.prems obtain b bs' where bs: "bs = b # bs'"
      by (cases bs) auto
    from Some bs Cons.prems
    have run: "exposedPorts_loop m rest (ports @ [HostPort b], removeAll (HostPort b) avail) =
               Return (ports', avail')"
      by simp
    from Cons.IH[OF run] Some bs show ?thesis
      by (auto simp: first_host_def distinct_removeAll)
  qed
qed

lemma exposedPorts_loop_Return_iff:
  "(\<exists>r. exposedPorts_loop m xs st = Return r) \<longleftrightarrow>
   (\<forall>x \<in> set xs. map_of m (normalize_port x) \<noteq> Some [])"
  by (induction m xs st rule: exposedPorts_loop.induct)
     (auto split: option.splits list.splits)

lemma exposedPorts_loop_Panic:
  "exposedPorts_loop m xs st = Panic x \<Longrightarrow> x = IndexOutOfRange"
  by (induction m xs st rule: exposedPorts_loop.induct)
     (auto split: option.splits list.splits)

lemma set_map_filter_conv:
  "set (List.map_filter f xs) = {y. \<exists>x \<in> set xs. f x = Some y}"
  by (induction xs) (auto split: option.splits)

lemma spec_available_eq:
  "spec_available i = {HostPort b | k b bs. (k, b # bs) \<in> set (NetworkPorts i) \<and> k \<noteq> CmdPort i \<and> k \<noteq> EvtPort i}"
proof (intro set_eqI iffI)
  fix h assume "h \<in> spec_available i"
  then obtain k bs where "(k, bs) \<in> set (NetworkPorts i)"
    and "(if k = CmdPort i \<or> k = EvtPort i then None
          else (case bs of [] \<Rightarrow> None | b # _ \<Rightarrow> Some (HostPort b))) = Some h"
    unfolding spec_available_def set_map_filter_conv by auto
  then show "h \<in> {HostPort b | k b bs. (k, b # bs) \<in> set (NetworkPorts i) \<and> k \<noteq> CmdPort i \<and> k \<noteq> EvtPort i}"
    by (cases bs) (auto split: if_splits)
next
  fix h assume "h \<in> {HostPort b | k b bs. (k, b # bs) \<in> set (NetworkPorts i) \<and> k \<noteq> CmdPort i \<and> k \<noteq> EvtPort i}"
  then obtain k b bs where e: "(k, b # bs) \<in> set (NetworkPorts i)" "k \<noteq> CmdPort i" "k \<noteq> EvtPort i"
    and h: "h = HostPort b" by auto
  show "h \<in> spec_available i"
    unfolding spec_available_def set_map_filter_conv
    using e h by (intro CollectI bexI[of _ "(k, b # bs)"]) auto
qed

lemma go_range_order_set: "go_range_order r \<Longrightarrow> set (r ks) = set ks"
  unfolding go_range_order_def by (metis set_mset_mset)

lemma go_range_order_distinct: "go_range_order r \<Longrightarrow> distinct (r ks) = distinct ks"
  unfolding go_range_order_def by (metis mset_eq_imp_distinct_iff)

lemma NewCustomProbe_no_targets:
  assumes "NewCustomProbe rng i cmds rc rw [] full ps pp = Return (probe, err)"
  shows "\<exists>remaining.
           Ports probe = spec_exposed_prefix (NetworkPorts i) (exposed i) @ rng remaining \<and>
           set remaining = spec_available i - set (spec_exposed_prefix (NetworkPorts i) (exposed i)) \<and>
           distinct remaining \<and> err = None"
proof -
  from assms obtain av where
    av: "availablePorts_loop (CmdPort i) (EvtPort i) (NetworkPorts i) [] = Return av"
    by (auto simp: NewCustomProbe_def Let_def split: go.splits)
  with assms obtain info where info: "DockerfileInfo i = Some info"
    by (auto simp: NewCustomProbe_def Let_def split: go.splits option.splits)
  then have exposed: "exposed i = ExposedPorts info" by (simp add: exposed_def)
  from av info assms obtain ports remaining where
    ex: "exposedPorts_loop (NetworkPorts i) (rev (exposed i)) ([], av) = Return (ports, remaining)"
    and res: "probe = \<lparr> PrintState = ps, PrintPrefix = pp, Ports = ports @ rng remaining,
                    Cmds = cmds, RetryCount = rc, RetryWait = rw,
                    TargetPorts = [], ProbeFull = full,
                    ContainerInspector = i \<rparr>" "err = None"
    by (auto simp: NewCustomProbe_def Let_def exposed split: go.splits)
  from availablePorts_loop_set[OF av] have "set av = spec_available i"
    by (simp add: spec_available_eq)
  moreover from availablePorts_loop_distinct[OF av] have "distinct av" by simp
  moreover note exposedPorts_loop_Return[OF ex]
  ultimately show ?thesis using res
    by (auto simp: spec_exposed_prefix_def)
qed

lemma NewCustomProbe_targets:
  assumes "NewCustomProbe rng i cmds rc rw tps full ps pp = Return (probe, err)" "tps \<noteq> []"
  shows "Ports probe = List.map_filter (first_host (NetworkPorts i)) (map tcp_spec tps) \<and> err = None"
proof -
  from assms obtain av where
    av: "availablePorts_loop (CmdPort i) (EvtPort i) (NetworkPorts i) [] = Return av"
    by (auto simp: NewCustomProbe_def Let_def split: go.splits)
  with assms obtain ports where
    ex: "targetPorts_loop (NetworkPorts i) tps [] = Return ports"
    and res: "Ports probe = ports" "err = None"
    by (auto simp: NewCustomProbe_def Let_def split: go.splits)
  from targetPorts_loop_Return[OF ex] res show ?thesis by simp
qed

lemma NewCustomProbe_Panic:
  "NewCustomProbe rng i cmds rc rw tps full ps pp = Panic x \<Longrightarrow>
   x = IndexOutOfRange \<or> (x = NilDereference \<and> tps = [] \<and> DockerfileInfo i = None \<and>
     (\<forall>(k, bs) \<in> set (NetworkPorts i). k \<noteq> CmdPort i \<and> k \<noteq> EvtPort i \<longrightarrow> bs \<noteq> []))"
  using availablePorts_loop_Return_iff[of "CmdPort i" "EvtPort i" "NetworkPorts i" "[]"]
  by (auto simp: NewCustomProbe_def Let_def split: go.splits if_splits option.splits
           dest: availablePorts_loop_Panic targetPorts_loop_Panic exposedPorts_loop_Panic)

lemma NewCustomProbe_Return_iff:
  "(\<exists>r. NewCustomProbe rng i cmds rc rw tps full ps pp = Return r) \<longleftrightarrow>
   (\<forall>(k, bs) \<in> set (NetworkPorts i). k \<noteq> CmdPort i \<and> k \<noteq> EvtPort i \<longrightarrow> bs \<noteq> []) \<and>
   (if tps \<noteq> [] then \<forall>p \<in> set tps. map_of (NetworkPorts i) (tcp_spec p) \<noteq> Some []
    else DockerfileInfo i \<noteq> None \<and>
         (\<forall>x \<in> set (exposed i). map_of (NetworkPorts i) (normalize_port x) \<noteq> Some []))"
proof -
  let ?A = "availablePorts_loop (CmdPort i) (EvtPort i) (NetworkPorts i) []"
  have A: "(\<exists>av. ?A = Return av) \<longleftrightarrow>
     (\<forall>(k, bs) \<in> set (NetworkPorts i). k \<noteq> CmdPort i \<and> k \<noteq> EvtPort i \<longrightarrow> bs \<noteq> [])"
    by (rule availablePorts_loop_Return_iff)
  have T: "(\<exists>r. targetPorts_loop (NetworkPorts i) tps [] = Return r) \<longleftrightarrow>
     (\<forall>p \<in> set tps. map_of (NetworkPorts i) (tcp_spec p) \<noteq> Some [])"
    by (rule targetPorts_loop_Return_iff)
  have E: "\<And>av. (\<exists>r. exposedPorts_loop (NetworkPorts i) (rev (exposed i)) ([], av) = Return r) \<longleftrightarrow>
     (\<forall>x \<in> set (exposed i). map_of (NetworkPorts i) (normalize_port x) \<noteq> Some [])"
    using exposedPorts_loop_Return_iff[of "NetworkPorts i" "rev (exposed i)"] by simp
  show ?thesis
  proof (cases ?A)
    case (Panic x)
    with A show ?thesis by (auto simp: NewCustomProbe_def Let_def)
  next
    case (Return av)
    show ?thesis
    proof (cases "tps = []")
      case True
      show ?thesis
      proof (cases "DockerfileInfo i")
        case None
        with Return True show ?thesis by (simp add: NewCustomProbe_def Let_def)
      next
        case (Some info)
        then have ex: "exposed i = ExposedPorts info" by (simp add: exposed_def)
        show ?thesis
        proof (cases "exposedPorts_loop (NetworkPorts i) (rev (exposed i)) ([], av)")
          case (Panic x)
          with Return True Some A E[of av] show ?thesis
            by (simp add: NewCustomProbe_def Let_def ex[symmetric])
        next
          case R: (Return r)
          with Return True Some A E[of av] show ?thesis
            by (cases r) (simp add: NewCustomProbe_def Let_def ex[symmetric])
        qed
      qed
    next
      case False
      show ?thesis
      proof (cases "targetPorts_loop (NetworkPorts i) tps []")
        case (Panic x)
        with Return False A T show ?thesis
          by (simp add: NewCustomProbe_def Let_def)
      next
        case R: (Return r)
        with Return False A T show ?thesis
          by (simp add: NewCustomProbe_def Let_def)
      qed
    qed
  qed
qed

lemma S1_plan:
  "NewCustomProbe (\<lambda>ks. ks) S1_inspector [] 0 0 [] False True ''docker-slim[build]:'' =
   Return (\<lparr> PrintState = True, PrintPrefix = ''docker-slim[build]:'',
              Ports = [''32783'', ''32781'', ''32780'', ''32790''],
              Cmds = [], RetryCount = 0, RetryWait = 0, TargetPorts = [],
              ProbeFull = False, ContainerInspector = S1_inspector \<rparr>, None)"
  by (simp add: NewCustomProbe_def S1_inspector_def bind_def normalize_port_def)

lemma S1_targets:
  "NewCustomProbe (\<lambda>ks. ks) S1_inspector [] 0 0 [443, 80] False True ''docker-slim[build]:'' =
   Return (\<lparr> PrintState = True, PrintPrefix = ''docker-slim[build]:'',
              Ports = [''32781'', ''32780''],
              Cmds = [], RetryCount = 0, RetryWait = 0, TargetPorts = [443, 80],
              ProbeFull = False, ContainerInspector = S1_inspector \<rparr>, None)"
  by (simp add: NewCustomProbe_def S1_inspector_def bind_def tcp_spec_def Itoa.simps digit_def)

lemma go_range_order_id: "go_range_order (\<lambda>ks. ks)"
  by (simp add: go_range_order_def)

text \<open>
  Claim C1 says that for every bound-port map, every pair of control ports and every
  value of \<open>target_ports\<close> the plan holds no host port whose container port is a
  control port. The guard of lines 63-65 filters only the available set; a target
  port is looked up in the bound map directly (line 75). With the command port
  \<open>65501/tcp\<close> bound to host port 32768 and \<open>target_ports = [65501]\<close> the plan is
  \<open>[32768]\<close>, the host port of the command port.
\<close>

theorem NewCustomProbe_control_port_counterexample:
  "NewCustomProbe (\<lambda>ks. ks) control_only_inspector [] 0 0 [65501] False True ''docker-slim[build]:''
   = Return (\<lparr> PrintState = True, PrintPrefix = ''docker-slim[build]:'', Ports = [''32768''],
               Cmds = [], RetryCount = 0, RetryWait = 0, TargetPorts = [65501],
               ProbeFull = False, ContainerInspector = control_only_inspector \<rparr>, None) \<and>
   CmdPort control_only_inspector = ''65501/tcp'' \<and>
   map_of (NetworkPorts control_only_inspector) (CmdPort control_only_inspector) =
     Some [\<lparr>HostIP = ''0.0.0.0'', HostPort = ''32768''\<rparr>]"
  by (simp add: NewCustomProbe_def control_only_inspector_def bind_def tcp_spec_def Itoa.simps digit_def)

text \<open>
  Claim C1 as amended: when no target port and, with \<open>target_ports\<close> empty, no
  declared exposed port (after normalisation) names a control port, every host port
  of the plan is the first host binding of an entry of the bound map whose container
  port is neither control port; and when no two entries of the bound map share their
  first host port, no host port of the plan is that of a control port.
\<close>

theorem NewCustomProbe_excludes_control_ports:
  assumes ret: "NewCustomProbe rng i cmds rc rw tps full ps pp = Return (probe, err)"
    and rng: "go_range_order rng"
    and tgt: "\<forall>p \<in> set tps. tcp_spec p \<noteq> CmdPort i \<and> tcp_spec p \<noteq> EvtPort i"
    and exp: "tps = [] \<longrightarrow>
              (\<forall>x \<in> set (exposed i). normalize_port x \<noteq> CmdPort i \<and> normalize_port x \<noteq> EvtPort i)"
  shows "(\<forall>h \<in> set (Ports probe). \<exists>k b bs.
            (k, b # bs) \<in> set (NetworkPorts i) \<and> k \<noteq> CmdPort i \<and> k \<noteq> EvtPort i \<and> HostPort b = h) \<and>
         ((\<forall>k b bs k' b' bs'. (k, b # bs) \<in> set (NetworkPorts i) \<and> (k', b' # bs') \<in> set (NetworkPorts i) \<and>
              HostPort b = HostPort b' \<longrightarrow> k = k') \<longrightarrow>
          (\<forall>h \<in> set (Ports probe). \<forall>c b bs.
              (c, b # bs) \<in> set (NetworkPorts i) \<and> HostPort b = h \<longrightarrow> c \<noteq> CmdPort i \<and> c \<noteq> EvtPort i))"
proof -
  have origin: "\<exists>k b bs. (k, b # bs) \<in> set (NetworkPorts i) \<and> k \<noteq> CmdPort i \<and> k \<noteq> EvtPort i \<and> HostPort b = h"
    if h: "h \<in> set (Ports probe)" for h
  proof -
    have via_lookup: "\<exists>k b bs. (k, b # bs) \<in> set (NetworkPorts i) \<and> k \<noteq> CmdPort i \<and> k \<noteq> EvtPort i \<and> HostPort b = h"
      if "first_host (NetworkPorts i) k = Some h" "k \<noteq> CmdPort i" "k \<noteq> EvtPort i" for k
    proof -
      from that(1) obtain b bs where "map_of (NetworkPorts i) k = Some (b # bs)" "HostPort b = h"
        by (auto simp: first_host_def split: option.splits list.splits)
      with that(2,3) show ?thesis by (blast dest: map_of_SomeD)
    qed
    show "\<exists>k b bs. (k, b # bs) \<in> set (NetworkPorts i) \<and> k \<noteq> CmdPort i \<and> k \<noteq> EvtPort i \<and> HostPort b = h"
    proof (cases "tps = []")
      case False
      from NewCustomProbe_targets[OF ret False] h
      obtain p where "p \<in> set tps" "first_host (NetworkPorts i) (tcp_spec p) = Some h"
        by (auto simp: set_map_filter_conv)
      with tgt show ?thesis by (intro via_lookup[of "tcp_spec p"]) auto
    next
      case True
      with ret NewCustomProbe_no_targets[of rng i cmds rc rw full ps pp probe err]
      obtain remaining where
        P: "Ports probe = spec_exposed_prefix (NetworkPorts i) (exposed i) @ rng remaining"
        and R: "set remaining = spec_available i - set (spec_exposed_prefix (NetworkPorts i) (exposed i))"
        by auto
      from h P consider "h \<in> set (spec_exposed_prefix (NetworkPorts i) (exposed i))"
        | "h \<in> set (rng remaining)" by auto
      then show ?thesis
      proof cases
        case 1
        then obtain x where "x \<in> set (exposed i)" "first_host (NetworkPorts i) (normalize_port x) = Some h"
          by (auto simp: spec_exposed_prefix_def set_map_filter_conv)
        with exp True show ?thesis by (intro via_lookup[of "normalize_port x"]) auto
      next
        case 2
        with R have "h \<in> spec_available i" by (simp add: go_range_order_set[OF rng])
        then show ?thesis unfolding spec_available_eq by blast
      qed
    qed
  qed
  then have first: "\<forall>h \<in> set (Ports probe). \<exists>k b bs.
            (k, b # bs) \<in> set (NetworkPorts i) \<and> k \<noteq> CmdPort i \<and> k \<noteq> EvtPort i \<and> HostPort b = h"
    by blast
  have second: "\<forall>h \<in> set (Ports probe). \<forall>c b bs.
              (c, b # bs) \<in> set (NetworkPorts i) \<and> HostPort b = h \<longrightarrow> c \<noteq> CmdPort i \<and> c \<noteq> EvtPort i"
    if inj: "\<forall>k b bs k' b' bs'. (k, b # bs) \<in> set (NetworkPorts i) \<and> (k', b' # bs') \<in> set (NetworkPorts i) \<and>
              HostPort b = HostPort b' \<longrightarrow> k = k'"
  proof (intro ballI allI impI)
    fix h c b bs
    assume h: "h \<in> set (Ports probe)" and c: "(c, b # bs) \<in> set (NetworkPorts i) \<and> HostPort b = h"
    from origin[OF h] obtain k b0 bs0 where
      k: "(k, b0 # bs0) \<in> set (NetworkPorts i)" "k \<noteq> CmdPort i" "k \<noteq> EvtPort i" "HostPort b0 = h"
      by blast
    from inj k(1,4) c have "k = c" by blast
    with k(2,3) show "c \<noteq> CmdPort i \<and> c \<noteq> EvtPort i" by simp
  qed
  from first second show ?thesis by blast
qed

theorem NewCustomProbe_excludes_control_ports_witness:
  "go_range_order (\<lambda>ks. ks) \<and>
   NewCustomProbe (\<lambda>ks. ks) S1_inspector [] 0 0 [] False True ''docker-slim[build]:'' =
     Return (\<lparr> PrintState = True, PrintPrefix = ''docker-slim[build]:'',
                Ports = [''32783'', ''32781'', ''32780'', ''32790''],
                Cmds = [], RetryCount = 0, RetryWait = 0, TargetPorts = [],
                ProbeFull = False, ContainerInspector = S1_inspector \<rparr>, None) \<and>
   list_all (\<lambda>x. normalize_port x \<noteq> CmdPort S1_inspector \<and> normalize_port x \<noteq> EvtPort S1_inspector)
     (exposed S1_inspector) \<and>
   list_all (\<lambda>h. \<exists>k b bs. (k, b # bs) \<in> set (NetworkPorts S1_inspector) \<and>
                k \<noteq> CmdPort S1_inspector \<and> k \<noteq> EvtPort S1_inspector \<and> HostPort b = h)
     [''32783'', ''32781'', ''32780'', ''32790''] \<and>
   NewCustomProbe (\<lambda>ks. ks) S1_inspector [] 0 0 [443, 80] False True ''docker-slim[build]:'' =
     Return (\<lparr> PrintState = True, PrintPrefix = ''docker-slim[build]:'',
                Ports = [''32781'', ''32780''],
                Cmds = [], RetryCount = 0, RetryWait = 0, TargetPorts = [443, 80],
                ProbeFull = False, ContainerInspector = S1_inspector \<rparr>, None) \<and>
   list_all (\<lambda>p. tcp_spec p \<noteq> CmdPort S1_inspector \<and> tcp_spec p \<noteq> EvtPort S1_inspector)
     [443, 80] \<and>
   list_all (\<lambda>h. \<exists>k b bs. (k, b # bs) \<in> set (NetworkPorts S1_inspector) \<and>
                k \<noteq> CmdPort S1_inspector \<and> k \<noteq> EvtPort S1_inspector \<and> HostPort b = h)
     [''32781'', ''32780''] \<and>
   \<not> (\<exists>b bs. (CmdPort S1_inspector, b # bs) \<in> set (NetworkPorts S1_inspector) \<and>
              HostPort b \<in> set [''32783'', ''32781'', ''32780'', ''32790'']) \<and>
   \<not> (\<exists>b bs. (EvtPort S1_inspector, b # bs) \<in> set (NetworkPorts S1_inspector) \<and>
              HostPort b \<in> set [''32783'', ''32781'', ''32780'', ''32790''])"
proof -
  have inj: "\<forall>k b bs k' b' bs'. (k, b # bs) \<in> set (NetworkPorts S1_inspector) \<and>
              (k', b' # bs') \<in> set (NetworkPorts S1_inspector) \<and> HostPort b = HostPort b' \<longrightarrow> k = k'"
    by (auto simp: S1_inspector_def bind_def)
  have exp: "\<forall>x \<in> set (exposed S1_inspector).
      normalize_port x \<noteq> CmdPort S1_inspector \<and> normalize_port x \<noteq> EvtPort S1_inspector"
    by (simp add: S1_inspector_def normalize_port_def exposed_def)
  have tgt: "\<forall>p \<in> set [443, 80 :: 16 word].
      tcp_spec p \<noteq> CmdPort S1_inspector \<and> tcp_spec p \<noteq> EvtPort S1_inspector"
    by (simp add: S1_inspector_def tcp_spec_def Itoa.simps digit_def)
  from NewCustomProbe_excludes_control_ports[OF S1_plan go_range_order_id, THEN conjunct1] exp
  have one: "\<forall>h \<in> set [''32783'', ''32781'', ''32780'', ''32790'']. \<exists>k b bs.
      (k, b # bs) \<in> set (NetworkPorts S1_inspector) \<and>
      k \<noteq> CmdPort S1_inspector \<and> k \<noteq> EvtPort S1_inspector \<and> HostPort b = h"
    by simp
  from NewCustomProbe_excludes_control_ports[OF S1_targets go_range_order_id tgt, THEN conjunct1]
  have two: "\<forall>h \<in> set [''32781'', ''32780'']. \<exists>k b bs.
      (k, b # bs) \<in> set (NetworkPorts S1_inspector) \<and>
      k \<noteq> CmdPort S1_inspector \<and> k \<noteq> EvtPort S1_inspector \<and> HostPort b = h"
    by simp
  have tgt0: "\<forall>p \<in> set ([] :: 16 word list).
      tcp_spec p \<noteq> CmdPort S1_inspector \<and> tcp_spec p \<noteq> EvtPort S1_inspector"
    by simp
  have exp0: "([] :: 16 word list) = [] \<longrightarrow> (\<forall>x \<in> set (exposed S1_inspector).
      normalize_port x \<noteq> CmdPort S1_inspector \<and> normalize_port x \<noteq> EvtPort S1_inspector)"
    using exp by simp
  from NewCustomProbe_excludes_control_ports[OF S1_plan go_range_order_id tgt0 exp0,
         THEN conjunct2, THEN mp, OF inj]
  have three: "\<forall>h \<in> set [''32783'', ''32781'', ''32780'', ''32790'']. \<forall>c b bs.
      (c, b # bs) \<in> set (NetworkPorts S1_inspector) \<and> HostPort b = h \<longrightarrow>
      c \<noteq> CmdPort S1_inspector \<and> c \<noteq> EvtPort S1_inspector"
    by simp
  then have four:
    "\<not> (\<exists>b bs. (CmdPort S1_inspector, b # bs) \<in> set (NetworkPorts S1_inspector) \<and>
              HostPort b \<in> set [''32783'', ''32781'', ''32780'', ''32790''])"
    "\<not> (\<exists>b bs. (EvtPort S1_inspector, b # bs) \<in> set (NetworkPorts S1_inspector) \<and>
              HostPort b \<in> set [''32783'', ''32781'', ''32780'', ''32790''])"
    by blast+
  from exp tgt one two four go_range_order_id S1_plan S1_targets show ?thesis
    unfolding list_all_iff by blast
qed

text \<open>
  Claim C5: with \<open>target_ports\<close> empty the plan is the host ports of the declared
  exposed ports in reverse declaration order (entries without a slash normalised to
  \<open>/tcp\<close>, unbound entries skipped), followed by the remaining available host ports,
  each once, in the order the runtime yields them; for exposed ports \<open>[A, B, C]\<close>,
  all bound, the first three ports of the plan are \<open>[host C, host B, host A]\<close>.
\<close>

theorem NewCustomProbe_exposed_ports_first:
  assumes ret: "NewCustomProbe rng i cmds rc rw [] full ps pp = Return (probe, err)"
    and rng: "go_range_order rng"
  shows "(\<exists>rest. Ports probe = spec_exposed_prefix (NetworkPorts i) (exposed i) @ rest \<and>
                 set rest = spec_available i - set (spec_exposed_prefix (NetworkPorts i) (exposed i)) \<and>
                 distinct rest) \<and>
         (\<forall>A B C hA hB hC.
            exposed i = [A, B, C] \<and>
            first_host (NetworkPorts i) (normalize_port A) = Some hA \<and>
            first_host (NetworkPorts i) (normalize_port B) = Some hB \<and>
            first_host (NetworkPorts i) (normalize_port C) = Some hC \<longrightarrow>
            take 3 (Ports probe) = [hC, hB, hA])"
proof -
  from NewCustomProbe_no_targets[OF ret] obtain remaining where
    P: "Ports probe = spec_exposed_prefix (NetworkPorts i) (exposed i) @ rng remaining"
    and R: "set remaining = spec_available i - set (spec_exposed_prefix (NetworkPorts i) (exposed i))"
    and D: "distinct remaining"
    by blast
  have one: "\<exists>rest. Ports probe = spec_exposed_prefix (NetworkPorts i) (exposed i) @ rest \<and>
                 set rest = spec_available i - set (spec_exposed_prefix (NetworkPorts i) (exposed i)) \<and>
                 distinct rest"
    using P R D go_range_order_set[OF rng, of remaining] go_range_order_distinct[OF rng, of remaining]
    by (intro exI[of _ "rng remaining"]) simp
  have two: "take 3 (Ports probe) = [hC, hB, hA]"
    if "exposed i = [A, B, C]"
       "first_host (NetworkPorts i) (normalize_port A) = Some hA"
       "first_host (NetworkPorts i) (normalize_port B) = Some hB"
       "first_host (NetworkPorts i) (normalize_port C) = Some hC" for A B C hA hB hC
    using P that by (simp add: spec_exposed_prefix_def)
  from one two show ?thesis by blast
qed

theorem NewCustomProbe_exposed_ports_first_witness:
  "go_range_order (\<lambda>ks. ks) \<and>
   NewCustomProbe (\<lambda>ks. ks) S1_inspector [] 0 0 [] False True ''docker-slim[build]:'' =
     Return (\<lparr> PrintState = True, PrintPrefix = ''docker-slim[build]:'',
                Ports = [''32783'', ''32781'', ''32780'', ''32790''],
                Cmds = [], RetryCount = 0, RetryWait = 0, TargetPorts = [],
                ProbeFull = False, ContainerInspector = S1_inspector \<rparr>, None) \<and>
   spec_exposed_prefix (NetworkPorts S1_inspector) (exposed S1_inspector) =
     [''32783'', ''32781'', ''32780''] \<and>
   spec_available S1_inspector - set [''32783'', ''32781'', ''32780''] = {''32790''} \<and>
   take 3 [''32783'', ''32781'', ''32780'', ''32790''] = [''32783'', ''32781'', ''32780'']"
proof -
  have pre: "spec_exposed_prefix (NetworkPorts S1_inspector) (exposed S1_inspector) =
     [''32783'', ''32781'', ''32780'']"
    by (simp add: spec_exposed_prefix_def S1_inspector_def first_host_def normalize_port_def bind_def exposed_def)
  have av: "spec_available S1_inspector - set [''32783'', ''32781'', ''32780''] = {''32790''}"
    by (auto simp: spec_available_def S1_inspector_def bind_def)
  from NewCustomProbe_exposed_ports_first[OF S1_plan go_range_order_id] pre av
  show ?thesis using S1_plan go_range_order_id by simp
qed

text \<open>
  Claim C9: the constructor indexes the first binding unconditionally. When
  \<open>target_ports\<close> is empty and some entry other than the control ports has no
  binding, or \<open>target_ports\<close> is not empty and some bound target port has no binding,
  the constructor panics with an index out of range; and it never returns an error
  that is not nil. (\<open>NewCustomProbe_Return_iff\<close> above gives the exact condition under
  which it returns.)
\<close>

theorem NewCustomProbe_panics_without_binding:
  "((tps = [] \<and> (\<exists>(k, bs) \<in> set (NetworkPorts i). k \<noteq> CmdPort i \<and> k \<noteq> EvtPort i \<and> bs = [])) \<or>
    (tps \<noteq> [] \<and> (\<exists>p \<in> set tps. map_of (NetworkPorts i) (tcp_spec p) = Some []))
    \<longrightarrow> NewCustomProbe rng i cmds rc rw tps full ps pp = Panic IndexOutOfRange) \<and>
   (\<forall>probe e. NewCustomProbe rng i cmds rc rw tps full ps pp \<noteq> Return (probe, Some e))"
proof (intro conjI impI allI)
  assume bad: "(tps = [] \<and> (\<exists>(k, bs) \<in> set (NetworkPorts i). k \<noteq> CmdPort i \<and> k \<noteq> EvtPort i \<and> bs = [])) \<or>
    (tps \<noteq> [] \<and> (\<exists>p \<in> set tps. map_of (NetworkPorts i) (tcp_spec p) = Some []))"
  have "\<not> (\<exists>r. NewCustomProbe rng i cmds rc rw tps full ps pp = Return r)"
    unfolding NewCustomProbe_Return_iff using bad by auto
  then obtain x where "NewCustomProbe rng i cmds rc rw tps full ps pp = Panic x"
    by (cases "NewCustomProbe rng i cmds rc rw tps full ps pp") auto
  with NewCustomProbe_Panic[OF this] bad
  show "NewCustomProbe rng i cmds rc rw tps full ps pp = Panic IndexOutOfRange" by auto
next
  fix probe e
  show "NewCustomProbe rng i cmds rc rw tps full ps pp \<noteq> Return (probe, Some e)"
    by (auto simp: NewCustomProbe_def Let_def split: go.splits option.splits)
qed

theorem NewCustomProbe_panics_without_binding_witness:
  "(\<exists>(k, bs) \<in> set (NetworkPorts unbound_inspector).
      k \<noteq> CmdPort unbound_inspector \<and> k \<noteq> EvtPort unbound_inspector \<and> bs = []) \<and>
   NewCustomProbe (\<lambda>ks. ks) unbound_inspector [] 0 0 [] False True ''docker-slim[build]:'' =
     Panic IndexOutOfRange"
proof -
  have bad: "\<exists>(k, bs) \<in> set (NetworkPorts unbound_inspector).
      k \<noteq> CmdPort unbound_inspector \<and> k \<noteq> EvtPort unbound_inspector \<and> bs = []"
    by (simp add: unbound_inspector_def)
  with NewCustomProbe_panics_without_binding
         [of "[]" unbound_inspector "\<lambda>ks. ks" "[]" 0 0 False True "''docker-slim[build]:''"]
  show ?thesis by blast
qed

section \<open>Properties of the probe worker\<close>

subsection \<open>Backoff\<close>

lemma sint_mult_small:
  fixes a b :: "64 word"
  assumes "- (2 ^ 63) \<le> sint a * sint b" "sint a * sint b < 2 ^ 63"
  shows "sint (a * b) = sint a * sint b"
  using assms by (simp add: sint_word_ariths signed_take_bit_int_eq_self)

lemma sint_Second: "sint Second = 1000000000"
  by (simp add: Second_def)

lemma sint_go_quot_2:
  assumes "0 < sint (a :: go_int)"
  shows "sint (go_quot a 2) = sint a div 2"
proof -
  have "sint a < 2 ^ 63" using sint_lt[of a] by simp
  with assms have "sint a sdiv 2 = sint a div 2"
    by (simp add: signed_divide_int_def sgn_if)
  moreover have "- (2 ^ 63) \<le> sint a div 2" "sint a div 2 < 2 ^ 63"
    using assms \<open>sint a < 2 ^ 63\<close> by auto
  ultimately show ?thesis
    by (simp add: go_quot_def sint_sbintrunc' signed_take_bit_int_eq_self)
qed

lemma pause_backoff:
  assumes "sint (RetryWait p) \<le> 4611686018"
  shows "pause (backoff p err) =
     (case err of
        UrlErrorEOF _ \<Rightarrow> (if 0 < sint (RetryWait p) then 2 * sint (RetryWait p) else 16)
      | UrlError _ \<Rightarrow> (if 0 < sint (RetryWait p) then sint (RetryWait p) else 8)
      | OtherError _ \<Rightarrow> (if 0 < sint (RetryWait p) then sint (RetryWait p) div 2 else 4)) * 1000000000"
proof (cases "0 < sint (RetryWait p)")
  case False
  then have "\<not> 0 <s RetryWait p" by (simp add: word_sless_alt)
  then show ?thesis using False
    by (cases err) (simp_all add: pause_def notReadyErrorWait_def webErrorWait_def otherErrorWait_def Second_def word_sless_alt)
next
  case True
  then have pos: "0 <s RetryWait p" by (simp add: word_sless_alt)
  let ?R = "sint (RetryWait p)"
  have two: "sint (RetryWait p * 2) = 2 * ?R"
    using True assms sint_mult_small[of "RetryWait p" 2] by simp
  have half: "sint (go_quot (RetryWait p) 2) = ?R div 2"
    by (rule sint_go_quot_2[OF True])
  have nr: "sint (RetryWait p * 2 * Second) = 2 * ?R * 1000000000"
    using True assms two sint_mult_small[of "RetryWait p * 2" Second] by (simp add: sint_Second)
  have web: "sint (RetryWait p * Second) = ?R * 1000000000"
    using True assms sint_mult_small[of "RetryWait p" Second] by (simp add: sint_Second)
  have oth: "sint (go_quot (RetryWait p) 2 * Second) = ?R div 2 * 1000000000"
    using True assms half sint_mult_small[of "go_quot (RetryWait p) 2" Second] by (simp add: sint_Second)
  show ?thesis
  proof (cases err)
    case (UrlErrorEOF s)
    with pos True nr show ?thesis
      by (simp add: pause_def notReadyErrorWait_def word_sless_alt)
  next
    case (UrlError s)
    with pos True web show ?thesis
      by (simp add: pause_def webErrorWait_def word_sless_alt)
  next
    case (OtherError s)
    with pos True oth show ?thesis
      by (simp add: pause_def otherErrorWait_def word_sless_alt)
  qed
qed

subsection \<open>One attempt\<close>

lemma add_headers_Some:
  "add_headers hs (Some r) =
   Return (Some (r\<lparr>req_header := req_header r @
             map (\<lambda>(hname, hvalue). (TrimSpace hname, TrimSpace hvalue)) (List.map_filter SplitN2 hs)\<rparr>))"
  by (induction hs arbitrary: r) (auto split: option.splits)

lemma add_headers_None:
  "add_headers hs None = Return None \<or> add_headers hs None = Panic NilDereference"
  by (induction hs) (auto split: option.splits)

lemma add_headers_None_Return:
  "add_headers hs None = Return r \<Longrightarrow> r = None"
  using add_headers_None[of hs] by auto

lemma add_headers_None_Panic:
  "add_headers hs None = Panic x \<Longrightarrow> x = NilDereference"
  using add_headers_None[of hs] by auto

lemma attempt_nil_request:
  assumes "\<not> NewRequest_ok net (Method cmd) addr"
  shows "attempt p net cmd addr i w = Panic NilDereference"
proof -
  have req: "NewRequest net (Method cmd) addr (Body cmd) = None"
    using assms by (simp add: NewRequest_def)
  show ?thesis
  proof (cases "add_headers (Headers cmd) None")
    case (Panic x)
    with add_headers_None_Panic[OF this] req show ?thesis
      by (simp add: attempt_def)
  next
    case (Return r)
    with add_headers_None_Return[OF this] req show ?thesis
      by (simp add: attempt_def set_basic_auth_def client_do_def)
  qed
qed

lemma attempt_request:
  assumes "NewRequest_ok net (Method cmd) addr"
  shows "\<exists>req1. add_headers (Headers cmd) (NewRequest net (Method cmd) addr (Body cmd)) = Return req1 \<and>
           set_basic_auth cmd req1 = Return (Some (probe_request cmd addr))"
  using assms
  by (simp add: NewRequest_def add_headers_Some set_basic_auth_def probe_request_def)

lemma attempt_Answered:
  assumes "NewRequest_ok net (Method cmd) addr"
    and "Do net (callCount w) (probe_request cmd addr) = Answered res"
  shows "attempt p net cmd addr i w =
     Return (True,
       w\<lparr>callCount := callCount w + 1, okCount := okCount w + 1,
         deferred := callCount w # deferred w,
         trace := trace w @ [HttpDo (callCount w) (probe_request cmd addr), ReadAll (callCount w)] @
                  (if PrintState p
                   then [Println (call_line p net cmd addr i (callCount w) (Answered res))] else [])\<rparr>)"
  using attempt_request[OF assms(1)] assms(2)
  by (auto simp: attempt_def client_do_def emit_def Let_def)

lemma attempt_Failed:
  assumes "NewRequest_ok net (Method cmd) addr"
    and "Do net (callCount w) (probe_request cmd addr) = Failed err ro"
  shows "attempt p net cmd addr i w =
     Return (False,
       w\<lparr>callCount := callCount w + 1, errCount := errCount w + 1,
         deferred := (if ro = None then deferred w else callCount w # deferred w),
         trace := trace w @ [HttpDo (callCount w) (probe_request cmd addr)] @
                  (if ro = None then [] else [ReadAll (callCount w)]) @
                  (if PrintState p
                   then [Println (call_line p net cmd addr i (callCount w) (Failed err ro))] else []) @
                  [Sleep (backoff p err)]\<rparr>)"
  using attempt_request[OF assms(1)] assms(2)
  by (cases ro) (auto simp: attempt_def client_do_def emit_def Let_def)

lemma net_failing_accepts:
  "NewRequest_ok (net_failing err) (Method get_root) addr"
  by (simp add: net_failing_def get_root_def)

lemma net_failing_Do:
  "Do (net_failing err) n r = Failed err None"
  by (simp add: net_failing_def)

lemma RetryWait_probe_with: "RetryWait (probe_with cmds ports rw full) = rw"
  by (simp add: probe_with_def)

text \<open>
  Claim C6 says that with \<open>retry_wait = R > 0\<close> the waits are \<open>R\<close>, \<open>2R\<close> and \<open>R/2\<close>
  seconds for every \<open>R\<close>. The waits are computed in \<open>int\<close> and multiplied by
  \<open>time.Second\<close> in \<open>int64\<close> nanoseconds (lines 237-245). With
  \<open>retry_wait = 5000000000\<close> the not-ready wait \<open>2R * 10^9\<close> wraps to a negative
  duration, and \<open>time.Sleep\<close> returns at once instead of pausing for \<open>10^10\<close> seconds.
\<close>

theorem backoff_overflow_counterexample:
  "0 <s RetryWait (probe_with [get_root] [''32780''] 5000000000 False) \<and>
   sint (RetryWait (probe_with [get_root] [''32780''] 5000000000 False)) = 5000000000 \<and>
   backoff (probe_with [get_root] [''32780''] 5000000000 False) (UrlErrorEOF ''EOF'') =
     10000000000000000000 \<and>
   pause (backoff (probe_with [get_root] [''32780''] 5000000000 False) (UrlErrorEOF ''EOF'')) = 0"
  by (simp add: probe_with_def notReadyErrorWait_def Second_def pause_def word_sless_alt)

text \<open>
  Claim C6 as amended: a failed attempt sleeps, as its last event, for a duration
  chosen by the class of the error: 8 s (web error), 16 s (not ready), 4 s (other)
  when \<open>retry_wait\<close> is not positive, and \<open>R\<close>, \<open>2R\<close>, \<open>R div 2\<close> seconds when
  \<open>retry_wait = R\<close> with \<open>0 < R \<le> 4611686018\<close>, the largest \<open>R\<close> for which
  \<open>2R\<close> seconds fit a \<open>Duration\<close>. With \<open>R = 10\<close> the waits are 20 s, 10 s and 5 s.
\<close>

theorem backoff_by_error_class:
  assumes "NewRequest_ok net (Method cmd) addr"
    and "Do net (callCount w) (probe_request cmd addr) = Failed err ro"
    and "sint (RetryWait p) \<le> 4611686018"
  shows "\<exists>w' es. attempt p net cmd addr i w = Return (False, w') \<and>
           trace w' = trace w @ es @ [Sleep (backoff p err)] \<and>
           pause (backoff p err) =
             (case err of
                UrlErrorEOF _ \<Rightarrow> (if 0 < sint (RetryWait p) then 2 * sint (RetryWait p) else 16)
              | UrlError _ \<Rightarrow> (if 0 < sint (RetryWait p) then sint (RetryWait p) else 8)
              | OtherError _ \<Rightarrow> (if 0 < sint (RetryWait p) then sint (RetryWait p) div 2 else 4))
             * 1000000000"
proof -
  let ?es = "[HttpDo (callCount w) (probe_request cmd addr)] @
             (if ro = None then [] else [ReadAll (callCount w)]) @
             (if PrintState p
              then [Println (call_line p net cmd addr i (callCount w) (Failed err ro))] else [])"
  from attempt_Failed[OF assms(1,2), of p i] obtain w' where
    "attempt p net cmd addr i w = Return (False, w')"
    "trace w' = trace w @ ?es @ [Sleep (backoff p err)]"
    by simp
  with pause_backoff[OF assms(3), of err] show ?thesis by blast
qed

theorem backoff_by_error_class_witness:
  "NewRequest_ok (net_failing (UrlErrorEOF ''EOF'')) (Method get_root) ''http://127.0.0.1:32780/'' \<and>
   Do (net_failing (UrlErrorEOF ''EOF'')) (callCount fresh)
      (probe_request get_root ''http://127.0.0.1:32780/'') = Failed (UrlErrorEOF ''EOF'') None \<and>
   sint (RetryWait (probe_with [get_root] [''32780''] 10 False)) \<le> 4611686018 \<and>
   pause (backoff (probe_with [get_root] [''32780''] 10 False) (UrlErrorEOF ''EOF'')) = 20 * 1000000000 \<and>
   pause (backoff (probe_with [get_root] [''32780''] 10 False) (UrlError ''reset'')) = 10 * 1000000000 \<and>
   pause (backoff (probe_with [get_root] [''32780''] 10 False) (OtherError ''other'')) = 5 * 1000000000 \<and>
   pause (backoff (probe_with [get_root] [''32780''] 0 False) (UrlErrorEOF ''EOF'')) = 16 * 1000000000 \<and>
   pause (backoff (probe_with [get_root] [''32780''] 0 False) (UrlError ''reset'')) = 8 * 1000000000 \<and>
   pause (backoff (probe_with [get_root] [''32780''] 0 False) (OtherError ''other'')) = 4 * 1000000000"
proof -
  let ?addr = "''http://127.0.0.1:32780/''"
  have small: "sint (RetryWait (probe_with [get_root] [''32780''] 10 False)) \<le> 4611686018"
    "sint (RetryWait (probe_with [get_root] [''32780''] 0 False)) \<le> 4611686018"
    by (simp_all add: RetryWait_probe_with)
  have at: "pause (backoff (probe_with [get_root] [''32780''] rw False) err) =
             (case err of
                UrlErrorEOF _ \<Rightarrow> (if 0 < sint rw then 2 * sint rw else 16)
              | UrlError _ \<Rightarrow> (if 0 < sint rw then sint rw else 8)
              | OtherError _ \<Rightarrow> (if 0 < sint rw then sint rw div 2 else 4)) * 1000000000"
    if "sint (RetryWait (probe_with [get_root] [''32780''] rw False)) \<le> 4611686018" for rw err
    using backoff_by_error_class[where net = "net_failing err" and cmd = get_root
            and addr = ?addr and w = fresh and i = 0 and err = err and ro = None
            and p = "probe_with [get_root] [''32780''] rw False",
            OF net_failing_accepts net_failing_Do that]
    unfolding RetryWait_probe_with by blast
  from at[OF small(1), of "UrlErrorEOF ''EOF''"] at[OF small(1), of "UrlError ''reset''"]
       at[OF small(1), of "OtherError ''other''"]
       at[OF small(2), of "UrlErrorEOF ''EOF''"] at[OF small(2), of "UrlError ''reset''"]
       at[OF small(2), of "OtherError ''other''"]
       small(1) net_failing_accepts[of "UrlErrorEOF ''EOF''" ?addr]
       net_failing_Do[of "UrlErrorEOF ''EOF''" "callCount fresh" "probe_request get_root ?addr"]
  show ?thesis by simp
qed

subsection \<open>A request that cannot be built\<close>

lemma attempt_Panic:
  "attempt p net cmd addr i w = Panic x \<Longrightarrow> x = NilDereference"
proof (cases "NewRequest_ok net (Method cmd) addr")
  case False
  assume "attempt p net cmd addr i w = Panic x"
  with attempt_nil_request[OF False, of p i w] show ?thesis by simp
next
  case True
  assume a: "attempt p net cmd addr i w = Panic x"
  show ?thesis
  proof (cases "Do net (callCount w) (probe_request cmd addr)")
    case (Answered res)
    from attempt_Answered[OF True this, of p i] a show ?thesis by simp
  next
    case (Failed err ro)
    from attempt_Failed[OF True this, of p i] a show ?thesis by simp
  qed
qed

lemma retry_loop_Panic:
  "retry_loop p net cmd addr left i w = Panic x \<Longrightarrow> x = NilDereference"
  by (induction left arbitrary: i w)
     (auto split: go.splits prod.splits bool.splits if_splits dest: attempt_Panic)

lemma retry_loop_nil_request:
  assumes "\<not> NewRequest_ok net (Method cmd) addr" "0 < left"
  shows "retry_loop p net cmd addr left i w = Panic NilDereference"
  using assms attempt_nil_request[OF assms(1), of p i w] by (cases left) auto

lemma maxRetryCount_pos: "0 < nat (sint (maxRetryCount p))"
  by (simp add: maxRetryCount_def probeRetryCount_def word_sless_alt)

lemma proto_loop_Panic:
  "proto_loop p net port cmd protos w = Panic x \<Longrightarrow> x = NilDereference"
  by (induction protos arbitrary: w) (auto split: go.splits dest: retry_loop_Panic)

lemma proto_loop_nil_request:
  assumes "\<forall>url. \<not> NewRequest_ok net (Method cmd) url" "protos \<noteq> []"
  shows "proto_loop p net port cmd protos w = Panic NilDereference"
proof -
  from assms(2) obtain proto rest where "protos = proto # rest" by (cases protos) auto
  with retry_loop_nil_request[OF _ maxRetryCount_pos,
         where net = net and cmd = cmd and addr = "target p proto port cmd" and p = p and i = 0 and w = w]
       assms(1)
  show ?thesis by simp
qed

lemma protocols_nonempty: "protocols cmd \<noteq> []"
  by (simp add: protocols_def)

lemma cmd_loop_Panic:
  "cmd_loop p net port cmds w = Panic x \<Longrightarrow> x = NilDereference"
  by (induction cmds arbitrary: w) (auto split: go.splits dest: proto_loop_Panic)

lemma cmd_loop_nil_request:
  assumes "\<forall>url. \<not> NewRequest_ok net (Method cmd) url" "cmd \<in> set cmds"
  shows "cmd_loop p net port cmds w = Panic NilDereference"
  using assms(2)
proof (induction cmds arbitrary: w)
  case Nil
  then show ?case by simp
next
  case (Cons c rest)
  show ?case
  proof (cases "proto_loop p net port c (protocols c) w")
    case (Panic x)
    with proto_loop_Panic[OF this] show ?thesis by simp
  next
    case (Return w')
    with proto_loop_nil_request[OF assms(1) protocols_nonempty, where p = p and port = port and w = w]
    have "c \<noteq> cmd" by auto
    with Cons.prems have "cmd \<in> set rest" by auto
    from Cons.IH[OF this, of w'] Return show ?thesis by simp
  qed
qed

lemma port_loop_Panic:
  "port_loop p net ports w = Panic x \<Longrightarrow> x = NilDereference"
  by (induction ports arbitrary: w) (auto split: go.splits if_splits dest: cmd_loop_Panic)

lemma port_loop_nil_request:
  assumes "\<forall>url. \<not> NewRequest_ok net (Method cmd) url" "cmd \<in> set (Cmds p)"
    "ports \<noteq> []" "okCount w = 0"
  shows "port_loop p net ports w = Panic NilDereference"
proof -
  from assms(3) obtain port rest where "ports = port # rest" by (cases ports) auto
  with cmd_loop_nil_request[OF assms(1,2), where p = p and port = port and w = w] assms(4)
  show ?thesis by simp
qed

text \<open>
  Claim C10: the error of \<open>http.NewRequest\<close> is never read. When the request cannot
  be built, the attempt dereferences the nil request (adding a header, setting the
  credentials, or inside \<open>Client.Do\<close>) and panics; no counter is advanced and the call is
  not recorded as failed. A probe with a non-empty plan and a command whose method
  \<open>http.NewRequest\<close> rejects therefore ends in a panic.
\<close>

theorem nil_request_panics:
  "(\<not> NewRequest_ok net (Method cmd) addr \<longrightarrow>
      attempt p net cmd addr i w = Panic NilDereference) \<and>
   ((\<forall>url. \<not> NewRequest_ok net (Method cmd) url) \<and> cmd \<in> set (Cmds p) \<and> Ports p \<noteq> [] \<longrightarrow>
      worker p net = Panic NilDereference \<and> Start p net = Panic NilDereference)"
proof (intro conjI impI)
  assume "\<not> NewRequest_ok net (Method cmd) addr"
  then show "attempt p net cmd addr i w = Panic NilDereference"
    by (rule attempt_nil_request)
next
  assume a: "(\<forall>url. \<not> NewRequest_ok net (Method cmd) url) \<and> cmd \<in> set (Cmds p) \<and> Ports p \<noteq> []"
  then have "\<And>w. okCount w = 0 \<Longrightarrow> port_loop p net (Ports p) w = Panic NilDereference"
    using port_loop_nil_request[of net cmd p "Ports p"] by blast
  then show w: "worker p net = Panic NilDereference"
    by (simp add: worker_def Let_def)
  then show "Start p net = Panic NilDereference"
    by (simp add: Start_def Let_def)
qed

theorem nil_request_panics_witness:
  "\<not> NewRequest_ok net_ok (Method bad_method) ''http://127.0.0.1:32780/'' \<and>
   attempt (probe_with [get_root, bad_method] [''32780''] 0 True) net_ok bad_method
      ''http://127.0.0.1:32780/'' 0 fresh = Panic NilDereference \<and>
   bad_method \<in> set (Cmds (probe_with [get_root, bad_method] [''32780''] 0 True)) \<and>
   Ports (probe_with [get_root, bad_method] [''32780''] 0 True) \<noteq> [] \<and>
   worker (probe_with [get_root, bad_method] [''32780''] 0 True) net_ok = Panic NilDereference \<and>
   Start (probe_with [get_root, bad_method] [''32780''] 0 True) net_ok = Panic NilDereference"
proof -
  have bad: "\<forall>url. \<not> NewRequest_ok net_ok (Method bad_method) url"
    by (simp add: net_ok_def bad_method_def)
  have mem: "bad_method \<in> set (Cmds (probe_with [get_root, bad_method] [''32780''] 0 True))"
    "Ports (probe_with [get_root, bad_method] [''32780''] 0 True) \<noteq> []"
    by (simp_all add: probe_with_def)
  from nil_request_panics[where net = net_ok and cmd = bad_method
         and addr = "''http://127.0.0.1:32780/''"
         and p = "probe_with [get_root, bad_method] [''32780''] 0 True" and i = 0 and w = fresh]
       bad mem
  show ?thesis by blast
qed

subsection \<open>The loops\<close>













lemmas run_defs = probe_with_def get_root_def get_any_def net_ok_def fresh_def
  attempt_def NewRequest_def set_basic_auth_def client_do_def emit_def protocols_def target_def
  maxRetryCount_def probeRetryCount_def S1_inspector_def Let_def worker_def Second_def
  word_sless_alt eval_nat_numeral probe_request_def



subsection \<open>Response bodies\<close>

text \<open>
  Claim C3 says that the body of every response is read to the end and closed before
  the next attempt begins. The body is read at once (line 203), but
  \<open>res.Body.Close()\<close> is deferred (line 206), and a deferred call runs when the
  goroutine's function returns. For one port and the command \<open>GET /\<close> with no protocol,
  answered with 200 on http and on https, the body of call 0 is closed after call 1
  was made, and after the done channel was closed.
\<close>

theorem worker_defers_body_close:
  "worker (probe_with [get_any] [''32781''] 0 False) net_ok =
   Return \<lparr> callCount = 2, errCount = 0, okCount = 2, deferred = [],
            trace = [Sleep 9000000000,
                     HttpDo 0 (probe_request get_any ''http://127.0.0.1:32781/''), ReadAll 0,
                     HttpDo 1 (probe_request get_any ''https://127.0.0.1:32781/''), ReadAll 1,
                     CloseDone, CloseBody 1, CloseBody 0] \<rparr>"
  by (simp add: run_defs)

text \<open>
  Read off that run: the fourth event is the second call, and the body of the first
  call is closed by the last event, four events later.
\<close>

theorem worker_defers_body_close_witness:
  "\<exists>w. worker (probe_with [get_any] [''32781''] 0 False) net_ok = Return w \<and>
        trace w ! 3 = HttpDo 1 (probe_request get_any ''https://127.0.0.1:32781/'') \<and>
        trace w ! 7 = CloseBody 0 \<and> length (trace w) = 8"
  using worker_defers_body_close by simp

section \<open>Properties of the commands\<close>

subsection \<open>Runs\<close>

lemma run_append:
  "run (a @ b) =
   (if list_all is_Go a then (case run b of (es, e) \<Rightarrow> (concat (map events_of a) @ es, e))
    else run a)"
proof (induction a)
  case Nil
  then show ?case by simp
next
  case (Cons st a)
  then show ?case by (cases st) (auto split: prod.splits)
qed

lemma run_all_Go:
  "list_all is_Go a \<Longrightarrow> run a = (concat (map events_of a), Returned)"
  using run_append[of a "[]"] by simp

lemma run_events:
  "x \<in> set (fst (run a)) \<Longrightarrow> \<exists>st \<in> set a. x \<in> set (events_of st)"
proof (induction a)
  case Nil
  then show ?case by simp
next
  case (Cons st a)
  then show ?case by (cases st) (auto split: prod.splits)
qed

lemma Start_line_quiet: "Save s \<notin> set (Start_line probe)" "StartProbe \<notin> set (Start_line probe)"
  by (simp_all add: Start_line_def Println_def)

lemma profile_start_quiet:
  "list_all (\<lambda>st. Save s \<notin> set (events_of st) \<and> StartProbe \<notin> set (events_of st))
     (profile_start_steps p w)"
  by (simp add: profile_start_steps_def FailOn_def Println_def split: option.split)


lemma NewCustomProbe_no_error:
  "NewCustomProbe rng i cmds rc rw tps full ps pp = Return (probe, err) \<Longrightarrow> err = None"
  by (auto simp: NewCustomProbe_def Let_def split: go.splits option.splits if_splits)

lemma concat_events_quiet:
  "list_all (\<lambda>st. x \<notin> set (events_of st)) a \<Longrightarrow> x \<notin> set (concat (map events_of a))"
  by (induction a) auto

lemma run_final:
  assumes "\<And>s. list_all (\<lambda>st. Save s \<notin> set (events_of st)) init"
    and "\<And>s. Save s \<in> set fin \<longleftrightarrow> s = CmdStateDone"
  shows "Save s \<in> set (fst (run (init @ [Go fin]))) \<longleftrightarrow> s = CmdStateDone \<and> list_all is_Go (init @ [Go fin])"
proof (cases "list_all is_Go init")
  case True
  then have "fst (run (init @ [Go fin])) = concat (map events_of init) @ fin"
    by (simp add: run_append)
  with concat_events_quiet[OF assms(1), of s] assms(2) True show ?thesis by simp
next
  case False
  then have r: "run (init @ [Go fin]) = run init" by (simp add: run_append)
  have "Save s \<notin> set (fst (run init))"
  proof
    assume "Save s \<in> set (fst (run init))"
    from run_events[OF this] obtain st where "st \<in> set init" "Save s \<in> set (events_of st)" by blast
    with assms(1)[of s] show False by (simp add: list_all_iff)
  qed
  with r False show ?thesis by simp
qed

lemma dockerfile_lines_quiet:
  "Save s \<notin> set (dockerfile_lines w)" "StartProbe \<notin> set (dockerfile_lines w)"
  by (auto simp: dockerfile_lines_def Println_def split: option.splits)

lemma basic_image_quiet:
  "list_all (\<lambda>st. Save s \<notin> set (events_of st) \<and> StartProbe \<notin> set (events_of st))
     (basic_image_steps p w)"
  by (simp add: basic_image_steps_def FailOn_def Println_def split: option.split)

lemma build_result_lines_quiet: "Save s \<notin> set (build_result_lines p w)"
  by (simp add: build_result_lines_def Println_def)

lemma build_start_quiet:
  "list_all (\<lambda>st. Save s \<notin> set (events_of st) \<and> StartProbe \<notin> set (events_of st))
     (build_start_steps p w)"
  using basic_image_quiet[of s p w] dockerfile_lines_quiet(1)[of s w] dockerfile_lines_quiet(2)[of w]
  by (simp add: build_start_steps_def FailOn_def Println_def split: option.split)

lemma profile_probe_quiet: "Save s \<notin> set (events_of (profile_probe_step p w))"
  by (simp add: profile_probe_step_def Println_def Start_line_def split: go.split option.split prod.split)

lemma profile_continue_quiet: "Save s \<notin> set (events_of (profile_continue_step p))"
  by (simp add: profile_continue_step_def Println_def)

lemma profile_finish_quiet:
  "list_all (\<lambda>st. Save s \<notin> set (events_of st)) (profile_finish_steps p w)"
  by (simp add: profile_finish_steps_def FailOn_def WarnOn_def Println_def split: option.split)

lemma profile_start_reached:
  "list_all is_Go (profile_start_steps p w) \<longleftrightarrow>
   confirmNetwork w \<and> NewInspector_err w = None \<and> \<not> NoImage w \<and> Inspect_err w = None \<and>
   image_ProcessCollectedData_err w = None \<and> container_NewInspector_err w = None \<and>
   RunContainer_err w = None"
  by (auto simp: profile_start_steps_def FailOn_def  split: option.split)

lemma profile_finish_reached:
  "list_all is_Go (profile_finish_steps p w) \<longleftrightarrow>
   HasCollectedData w \<and> container_ProcessCollectedData_err w = None "
  by (auto simp: profile_finish_steps_def FailOn_def split: option.split)

lemma profile_before_final_quiet:
  "list_all (\<lambda>st. Save s \<notin> set (events_of st))
     (profile_start_steps p w @ [profile_probe_step p w, profile_continue_step p] @ profile_finish_steps p w)"
proof -
  have "list_all (\<lambda>st. Save s \<notin> set (events_of st)) (profile_start_steps p w)"
    using profile_start_quiet[of s p w] by (simp add: list_all_iff)
  then show ?thesis
    using profile_probe_quiet[of s p w] profile_continue_quiet[of s p] profile_finish_quiet[of s p w]
    by simp
qed

lemma profile_empty_plan_stops:
  assumes "doHTTPProbe p \<or> continueAfter_Mode p = ''probe''"
    and "NewCustomProbe (range_order w) (containerInspector w) (httpProbeCmds p)
           (httpProbeRetryCount p) (httpProbeRetryWait p) (httpProbePorts p)
           (doHTTPProbeFull p) True ''docker-slim[profile]:'' = Return (probe, err)"
    and "Ports probe = []"
  shows "profile_probe_step p w =
     Stop [Println (''docker-slim[profile]: state=http.probe.error error='' @
                    quoted ''no exposed ports'' @ '' message='' @ [CHR 0x27] @
                    ''expose your service port with --expose or disable HTTP probing with --http-probe=false if your containerized application doesnt expose any network services''),
           FinishMonitoring,
           ShutdownContainer,
           Println ''docker-slim[profile]: state=exited'']
          Returned"
proof -
  from NewCustomProbe_no_error[OF assms(2)] have "err = None" .
  with assms show ?thesis by (simp add: profile_probe_step_def)
qed

lemma build_probe_quiet: "Save s \<notin> set (events_of (build_probe_step p w))"
  by (simp add: build_probe_step_def Println_def Start_line_def split: go.split option.split prod.split)

lemma build_continue_quiet: "Save s \<notin> set (events_of (build_continue_step p))"
  by (simp add: build_continue_step_def Println_def)

lemma build_finish_quiet:
  "list_all (\<lambda>st. Save s \<notin> set (events_of st)) (build_finish_steps p w)"
  by (simp add: build_finish_steps_def FailOn_def WarnOn_def Println_def build_result_lines_quiet split: option.split)

lemma build_start_reached:
  "list_all is_Go (build_start_steps p w) \<longleftrightarrow>
   (buildFromDockerfile p = [] \<or>
      fatImageRepoNameTag p w \<noteq> None \<and> NewBasicImageBuilder_err w = None \<and>
      fatBuilder_Build_err w = None) \<and>
   confirmNetwork w \<and> NewInspector_err w = None \<and> \<not> NoImage w \<and> Inspect_err w = None \<and>
   image_ProcessCollectedData_err w = None \<and> container_NewInspector_err w = None \<and>
   RunContainer_err w = None"
  by (auto simp: build_start_steps_def FailOn_def basic_image_steps_def split: option.split)

lemma build_finish_reached:
  "list_all is_Go (build_finish_steps p w) \<longleftrightarrow>
   HasCollectedData w \<and> container_ProcessCollectedData_err w = None \<and>
   NewImageBuilder_err w = None \<and> builder_Build_err w = None \<and> new_NewInspector_err w = None \<and>
   \<not> new_NoImage w"
  by (auto simp: build_finish_steps_def FailOn_def split: option.split)

lemma build_before_final_quiet:
  "list_all (\<lambda>st. Save s \<notin> set (events_of st))
     (build_start_steps p w @ [build_probe_step p w, build_continue_step p] @ build_finish_steps p w)"
proof -
  have "list_all (\<lambda>st. Save s \<notin> set (events_of st)) (build_start_steps p w)"
    using build_start_quiet[of s p w] by (simp add: list_all_iff)
  then show ?thesis
    using build_probe_quiet[of s p w] build_continue_quiet[of s p] build_finish_quiet[of s p w]
    by simp
qed

lemma build_empty_plan_stops:
  assumes "doHTTPProbe p \<or> continueAfter_Mode p = ''probe''"
    and "NewCustomProbe (range_order w) (containerInspector w) (httpProbeCmds p)
           (httpProbeRetryCount p) (httpProbeRetryWait p) (httpProbePorts p)
           (doHTTPProbeFull p) True ''docker-slim[build]:'' = Return (probe, err)"
    and "Ports probe = []"
  shows "build_probe_step p w =
     Stop [Println (''docker-slim[build]: state=http.probe.error error='' @
                    quoted ''no exposed ports'' @ '' message='' @ [CHR 0x27] @
                    ''expose your service port with --expose or disable HTTP probing with --http-probe=false if your containerized application doesnt expose any network services''),
           FinishMonitoring,
           ShutdownContainer,
           Println ''docker-slim[build]: state=exited'']
          Returned"
proof -
  from NewCustomProbe_no_error[OF assms(2)] have "err = None" .
  with assms show ?thesis by (simp add: build_probe_step_def)
qed

subsection \<open>The report\<close>

text \<open>
  Claim C2 says that every invocation writes the report at the end of the run, also
  when the run ends early. Both commands call \<open>Save\<close> once, as their last statement,
  and every early end is a \<open>return\<close> (or an exit) before it. Profiling an image that is
  not found prints four lines and returns; no report is written.
\<close>

theorem OnProfile_image_not_found_counterexample:
  "OnProfile S_params (S_world\<lparr>NoImage := True\<rparr>) =
     ([Println ''docker-slim[profile]: state=started'',
       Println ''docker-slim[profile]: info=params target=nginx'',
       Println ''docker-slim[profile]: target image not found - nginx'',
       Println ''docker-slim[profile]: state=exited''],
      Returned)"
  by (simp add: OnProfile_def OnProfile_steps_def profile_start_steps_def S_params_def S_world_def
        FailOn_def)

lemma profile_saved_iff:
  "Save s \<in> set (fst (OnProfile p w)) \<longleftrightarrow> s = CmdStateDone \<and> list_all is_Go (OnProfile_steps p w)"
proof -
  let ?init = "profile_start_steps p w @ [profile_probe_step p w, profile_continue_step p] @ profile_finish_steps p w"
  have steps: "OnProfile_steps p w =
      ?init @ [Go [Println ''docker-slim[profile]: state=done'', PrintCheckVersion, Save CmdStateDone]]"
    by (simp add: OnProfile_steps_def profile_final_step_def)
  have fin: "\<And>s. Save s \<in> set [Println ''docker-slim[profile]: state=done'', PrintCheckVersion, Save CmdStateDone]
                \<longleftrightarrow> s = CmdStateDone"
    by (auto simp: Println_def)
  show ?thesis
    unfolding OnProfile_def steps
    by (rule run_final[OF profile_before_final_quiet fin])
qed

lemma build_saved_iff:
  "Save s \<in> set (fst (OnBuild p w)) \<longleftrightarrow> s = CmdStateDone \<and> list_all is_Go (OnBuild_steps p w)"
proof -
  let ?init = "build_start_steps p w @ [build_probe_step p w, build_continue_step p] @ build_finish_steps p w"
  have steps: "OnBuild_steps p w =
      ?init @ [Go [Println ''docker-slim[build]: state=done'', PrintCheckVersion, Save CmdStateDone]]"
    by (simp add: OnBuild_steps_def build_final_step_def)
  have fin: "\<And>s. Save s \<in> set [Println ''docker-slim[build]: state=done'', PrintCheckVersion, Save CmdStateDone]
                \<longleftrightarrow> s = CmdStateDone"
    by (auto simp: Println_def)
  show ?thesis
    unfolding OnBuild_def steps
    by (rule run_final[OF build_before_final_quiet fin])
qed

lemma profile_completes:
  assumes "list_all is_Go (OnProfile_steps p w)"
  shows "snd (OnProfile p w) = Returned" "last (fst (OnProfile p w)) = Save CmdStateDone"
  using run_all_Go[OF assms]
  by (simp_all add: OnProfile_def OnProfile_steps_def profile_final_step_def)

lemma build_completes:
  assumes "list_all is_Go (OnBuild_steps p w)"
  shows "snd (OnBuild p w) = Returned" "last (fst (OnBuild p w)) = Save CmdStateDone"
  using run_all_Go[OF assms]
  by (simp_all add: OnBuild_def OnBuild_steps_def build_final_step_def)

lemma profile_early_end:
  assumes "NoImage w \<or> \<not> HasCollectedData w \<or>
     ((doHTTPProbe p \<or> continueAfter_Mode p = ''probe'') \<and>
      (\<exists>probe err. NewCustomProbe (range_order w) (containerInspector w) (httpProbeCmds p)
           (httpProbeRetryCount p) (httpProbeRetryWait p) (httpProbePorts p)
           (doHTTPProbeFull p) True ''docker-slim[profile]:'' = Return (probe, err) \<and> Ports probe = []))"
  shows "\<not> list_all is_Go (OnProfile_steps p w)"
  using assms profile_start_reached[of p w] profile_finish_reached[of p w]
    profile_empty_plan_stops[of p w]
  by (auto simp: OnProfile_steps_def)

lemma build_early_end:
  assumes "NoImage w \<or> \<not> HasCollectedData w \<or> new_NoImage w \<or>
     ((doHTTPProbe p \<or> continueAfter_Mode p = ''probe'') \<and>
      (\<exists>probe err. NewCustomProbe (range_order w) (containerInspector w) (httpProbeCmds p)
           (httpProbeRetryCount p) (httpProbeRetryWait p) (httpProbePorts p)
           (doHTTPProbeFull p) True ''docker-slim[build]:'' = Return (probe, err) \<and> Ports probe = []))"
  shows "\<not> list_all is_Go (OnBuild_steps p w)"
  using assms build_start_reached[of p w] build_finish_reached[of p w]
    build_empty_plan_stops[of p w]
  by (auto simp: OnBuild_steps_def)

text \<open>
  Claim C2 as amended: a run of \<open>profile\<close> or \<open>build\<close> writes the report exactly when
  no step ends it early, that is when it reaches the end of the command; the report
  is then written with the state \<open>Done\<close>, as the last event of the run, and the command
  returns. A run that ends on image not found, on no collected data, on an empty port
  plan or (for \<open>build\<close>) on a minified image that is not found writes no report.
  (\<open>profile_start_reached\<close>, \<open>profile_finish_reached\<close> and their \<open>build\<close> counterparts
  say in terms of the collaborators when the steps go on.)
\<close>

theorem report_saved_only_at_the_end:
  "(Save s \<in> set (fst (OnProfile p w)) \<longleftrightarrow> s = CmdStateDone \<and> list_all is_Go (OnProfile_steps p w)) \<and>
   (list_all is_Go (OnProfile_steps p w) \<longrightarrow>
      snd (OnProfile p w) = Returned \<and> last (fst (OnProfile p w)) = Save CmdStateDone) \<and>
   (NoImage w \<or> \<not> HasCollectedData w \<or>
     ((doHTTPProbe p \<or> continueAfter_Mode p = ''probe'') \<and>
      (\<exists>probe err. NewCustomProbe (range_order w) (containerInspector w) (httpProbeCmds p)
           (httpProbeRetryCount p) (httpProbeRetryWait p) (httpProbePorts p)
           (doHTTPProbeFull p) True ''docker-slim[profile]:'' = Return (probe, err) \<and> Ports probe = []))
    \<longrightarrow> \<not> list_all is_Go (OnProfile_steps p w) \<and> Save s \<notin> set (fst (OnProfile p w))) \<and>
   (Save s \<in> set (fst (OnBuild p w)) \<longleftrightarrow> s = CmdStateDone \<and> list_all is_Go (OnBuild_steps p w)) \<and>
   (list_all is_Go (OnBuild_steps p w) \<longrightarrow>
      snd (OnBuild p w) = Returned \<and> last (fst (OnBuild p w)) = Save CmdStateDone) \<and>
   (NoImage w \<or> \<not> HasCollectedData w \<or> new_NoImage w \<or>
     ((doHTTPProbe p \<or> continueAfter_Mode p = ''probe'') \<and>
      (\<exists>probe err. NewCustomProbe (range_order w) (containerInspector w) (httpProbeCmds p)
           (httpProbeRetryCount p) (httpProbeRetryWait p) (httpProbePorts p)
           (doHTTPProbeFull p) True ''docker-slim[build]:'' = Return (probe, err) \<and> Ports probe = []))
    \<longrightarrow> \<not> list_all is_Go (OnBuild_steps p w) \<and> Save s \<notin> set (fst (OnBuild p w)))"
proof (intro conjI impI)
  show "Save s \<in> set (fst (OnProfile p w)) \<longleftrightarrow> s = CmdStateDone \<and> list_all is_Go (OnProfile_steps p w)"
    by (rule profile_saved_iff)
  show "Save s \<in> set (fst (OnBuild p w)) \<longleftrightarrow> s = CmdStateDone \<and> list_all is_Go (OnBuild_steps p w)"
    by (rule build_saved_iff)
next
  assume "list_all is_Go (OnProfile_steps p w)"
  then show "snd (OnProfile p w) = Returned" "last (fst (OnProfile p w)) = Save CmdStateDone"
    by (rule profile_completes)+
next
  assume "list_all is_Go (OnBuild_steps p w)"
  then show "snd (OnBuild p w) = Returned" "last (fst (OnBuild p w)) = Save CmdStateDone"
    by (rule build_completes)+
next
  assume a: "NoImage w \<or> \<not> HasCollectedData w \<or>
     ((doHTTPProbe p \<or> continueAfter_Mode p = ''probe'') \<and>
      (\<exists>probe err. NewCustomProbe (range_order w) (containerInspector w) (httpProbeCmds p)
           (httpProbeRetryCount p) (httpProbeRetryWait p) (httpProbePorts p)
           (doHTTPProbeFull p) True ''docker-slim[profile]:'' = Return (probe, err) \<and> Ports probe = []))"
  from profile_early_end[OF a] show n: "\<not> list_all is_Go (OnProfile_steps p w)" .
  then show "Save s \<notin> set (fst (OnProfile p w))" by (simp add: profile_saved_iff)
next
  assume a: "NoImage w \<or> \<not> HasCollectedData w \<or> new_NoImage w \<or>
     ((doHTTPProbe p \<or> continueAfter_Mode p = ''probe'') \<and>
      (\<exists>probe err. NewCustomProbe (range_order w) (containerInspector w) (httpProbeCmds p)
           (httpProbeRetryCount p) (httpProbeRetryWait p) (httpProbePorts p)
           (doHTTPProbeFull p) True ''docker-slim[build]:'' = Return (probe, err) \<and> Ports probe = []))"
  from build_early_end[OF a] show n: "\<not> list_all is_Go (OnBuild_steps p w)" .
  then show "Save s \<notin> set (fst (OnBuild p w))" by (simp add: build_saved_iff)
qed

lemma S_profile_completes: "list_all is_Go (OnProfile_steps S_params S_world)"
  by (simp add: OnProfile_steps_def profile_start_reached profile_finish_reached
        profile_final_step_def profile_probe_step_def profile_continue_step_def
        S_params_def S_world_def NewCustomProbe_def S1_inspector_def bind_def normalize_port_def)

lemma S_build_completes: "list_all is_Go (OnBuild_steps S_params S_world)"
  by (simp add: OnBuild_steps_def build_start_reached build_finish_reached
        build_final_step_def build_probe_step_def build_continue_step_def
        S_params_def S_world_def NewCustomProbe_def S1_inspector_def bind_def normalize_port_def)

theorem report_saved_only_at_the_end_witness:
  "list_all is_Go (OnProfile_steps S_params S_world) \<and>
   Save CmdStateDone \<in> set (fst (OnProfile S_params S_world)) \<and>
   snd (OnProfile S_params S_world) = Returned \<and>
   last (fst (OnProfile S_params S_world)) = Save CmdStateDone \<and>
   list_all is_Go (OnBuild_steps S_params S_world) \<and>
   Save CmdStateDone \<in> set (fst (OnBuild S_params S_world)) \<and>
   snd (OnBuild S_params S_world) = Returned \<and>
   last (fst (OnBuild S_params S_world)) = Save CmdStateDone \<and>
   NoImage (S_world\<lparr>NoImage := True\<rparr>) \<and>
   Save CmdStateDone \<notin> set (fst (OnProfile S_params (S_world\<lparr>NoImage := True\<rparr>))) \<and>
   Save CmdStateDone \<notin> set (fst (OnBuild S_params (S_world\<lparr>NoImage := True\<rparr>))) \<and>
   \<not> HasCollectedData (S_world\<lparr>HasCollectedData := False\<rparr>) \<and>
   Save CmdStateDone \<notin> set (fst (OnProfile S_params (S_world\<lparr>HasCollectedData := False\<rparr>))) \<and>
   Save CmdStateDone \<notin> set (fst (OnBuild S_params (S_world\<lparr>HasCollectedData := False\<rparr>)))"
proof -
  note full = report_saved_only_at_the_end[where s = CmdStateDone and p = S_params and w = S_world]
  note gone = report_saved_only_at_the_end[where s = CmdStateDone and p = S_params
                and w = "S_world\<lparr>NoImage := True\<rparr>"]
  note idle = report_saved_only_at_the_end[where s = CmdStateDone and p = S_params
                and w = "S_world\<lparr>HasCollectedData := False\<rparr>"]
  have a: "NoImage (S_world\<lparr>NoImage := True\<rparr>)"
    and b: "\<not> HasCollectedData (S_world\<lparr>HasCollectedData := False\<rparr>)"
    by simp_all
  from full S_profile_completes S_build_completes
  have 1: "Save CmdStateDone \<in> set (fst (OnProfile S_params S_world))"
    "snd (OnProfile S_params S_world) = Returned"
    "last (fst (OnProfile S_params S_world)) = Save CmdStateDone"
    "Save CmdStateDone \<in> set (fst (OnBuild S_params S_world))"
    "snd (OnBuild S_params S_world) = Returned"
    "last (fst (OnBuild S_params S_world)) = Save CmdStateDone"
    by blast+
  from gone a
  have 2: "Save CmdStateDone \<notin> set (fst (OnProfile S_params (S_world\<lparr>NoImage := True\<rparr>)))"
    "Save CmdStateDone \<notin> set (fst (OnBuild S_params (S_world\<lparr>NoImage := True\<rparr>)))"
    by blast+
  from idle b
  have 3: "Save CmdStateDone \<notin> set (fst (OnProfile S_params (S_world\<lparr>HasCollectedData := False\<rparr>)))"
    "Save CmdStateDone \<notin> set (fst (OnBuild S_params (S_world\<lparr>HasCollectedData := False\<rparr>)))"
    by blast+
  show ?thesis
    by (intro conjI) (rule S_profile_completes S_build_completes 1 2 3 a b)+
qed

subsection \<open>An empty port plan\<close>

lemma run_stops_after:
  assumes "list_all is_Go a"
  shows "run (a @ Stop es e # b) = (concat (map events_of a) @ es, e)"
  using assms by (simp add: run_append)

lemma start_events_quiet:
  "StartProbe \<notin> set (concat (map events_of (profile_start_steps p w)))"
  "StartProbe \<notin> set (concat (map events_of (build_start_steps p w)))"
proof -
  have "list_all (\<lambda>st. StartProbe \<notin> set (events_of st)) (profile_start_steps p w)"
    using profile_start_quiet[of CmdStateDone p w] by (simp add: list_all_iff)
  then show "StartProbe \<notin> set (concat (map events_of (profile_start_steps p w)))"
    by (rule concat_events_quiet)
  have "list_all (\<lambda>st. StartProbe \<notin> set (events_of st)) (build_start_steps p w)"
    using build_start_quiet[of CmdStateDone p w] by (simp add: list_all_iff)
  then show "StartProbe \<notin> set (concat (map events_of (build_start_steps p w)))"
    by (rule concat_events_quiet)
qed

text \<open>
  Claim C7: when probing is enabled (\<open>do_http_probe\<close>, or the continue-after mode
  \<open>probe\<close>) and the probe that is constructed has an empty port plan, a run that has
  started the container prints \<open>state=http.probe.error\<close> with its message, calls
  \<open>FinishMonitoring\<close>, then \<open>ShutdownContainer\<close>, prints \<open>state=exited\<close> and returns;
  these are its last four events, it does not end in an error, and the probe is never
  started. This holds for \<open>profile\<close> and for \<open>build\<close>.
\<close>

theorem empty_plan_exits_cleanly:
  "(list_all is_Go (profile_start_steps p w) \<and>
    (doHTTPProbe p \<or> continueAfter_Mode p = ''probe'') \<and>
    NewCustomProbe (range_order w) (containerInspector w) (httpProbeCmds p)
      (httpProbeRetryCount p) (httpProbeRetryWait p) (httpProbePorts p)
      (doHTTPProbeFull p) True ''docker-slim[profile]:'' = Return (probe, err) \<and>
    Ports probe = []
    \<longrightarrow> OnProfile p w =
          (concat (map events_of (profile_start_steps p w)) @
           [Println (''docker-slim[profile]: state=http.probe.error error='' @
                     quoted ''no exposed ports'' @ '' message='' @ [CHR 0x27] @
                     ''expose your service port with --expose or disable HTTP probing with --http-probe=false if your containerized application doesnt expose any network services''),
            FinishMonitoring,
            ShutdownContainer,
            Println ''docker-slim[profile]: state=exited''],
           Returned) \<and>
        StartProbe \<notin> set (fst (OnProfile p w))) \<and>
   (list_all is_Go (build_start_steps p w) \<and>
    (doHTTPProbe p \<or> continueAfter_Mode p = ''probe'') \<and>
    NewCustomProbe (range_order w) (containerInspector w) (httpProbeCmds p)
      (httpProbeRetryCount p) (httpProbeRetryWait p) (httpProbePorts p)
      (doHTTPProbeFull p) True ''docker-slim[build]:'' = Return (bprobe, berr) \<and>
    Ports bprobe = []
    \<longrightarrow> OnBuild p w =
          (concat (map events_of (build_start_steps p w)) @
           [Println (''docker-slim[build]: state=http.probe.error error='' @
                     quoted ''no exposed ports'' @ '' message='' @ [CHR 0x27] @
                     ''expose your service port with --expose or disable HTTP probing with --http-probe=false if your containerized application doesnt expose any network services''),
            FinishMonitoring,
            ShutdownContainer,
            Println ''docker-slim[build]: state=exited''],
           Returned) \<and>
        StartProbe \<notin> set (fst (OnBuild p w)))"
proof (intro conjI impI)
  assume a: "list_all is_Go (profile_start_steps p w) \<and>
    (doHTTPProbe p \<or> continueAfter_Mode p = ''probe'') \<and>
    NewCustomProbe (range_order w) (containerInspector w) (httpProbeCmds p)
      (httpProbeRetryCount p) (httpProbeRetryWait p) (httpProbePorts p)
      (doHTTPProbeFull p) True ''docker-slim[profile]:'' = Return (probe, err) \<and>
    Ports probe = []"
  then have stop: "profile_probe_step p w =
     Stop [Println (''docker-slim[profile]: state=http.probe.error error='' @
                    quoted ''no exposed ports'' @ '' message='' @ [CHR 0x27] @
                    ''expose your service port with --expose or disable HTTP probing with --http-probe=false if your containerized application doesnt expose any network services''),
           FinishMonitoring,
           ShutdownContainer,
           Println ''docker-slim[profile]: state=exited'']
          Returned"
    using profile_empty_plan_stops[of p w probe err] by blast
  from a have go: "list_all is_Go (profile_start_steps p w)" by blast
  show r: "OnProfile p w =
          (concat (map events_of (profile_start_steps p w)) @
           [Println (''docker-slim[profile]: state=http.probe.error error='' @
                     quoted ''no exposed ports'' @ '' message='' @ [CHR 0x27] @
                     ''expose your service port with --expose or disable HTTP probing with --http-probe=false if your containerized application doesnt expose any network services''),
            FinishMonitoring,
            ShutdownContainer,
            Println ''docker-slim[profile]: state=exited''],
           Returned)"
    unfolding OnProfile_def OnProfile_steps_def
    using run_stops_after[OF go] by (simp add: stop)
  show "StartProbe \<notin> set (fst (OnProfile p w))"
    unfolding r using start_events_quiet(1)[of p w] by (simp add: Println_def)
next
  assume a: "list_all is_Go (build_start_steps p w) \<and>
    (doHTTPProbe p \<or> continueAfter_Mode p = ''probe'') \<and>
    NewCustomProbe (range_order w) (containerInspector w) (httpProbeCmds p)
      (httpProbeRetryCount p) (httpProbeRetryWait p) (httpProbePorts p)
      (doHTTPProbeFull p) True ''docker-slim[build]:'' = Return (bprobe, berr) \<and>
    Ports bprobe = []"
  then have stop: "build_probe_step p w =
     Stop [Println (''docker-slim[build]: state=http.probe.error error='' @
                    quoted ''no exposed ports'' @ '' message='' @ [CHR 0x27] @
                    ''expose your service port with --expose or disable HTTP probing with --http-probe=false if your containerized application doesnt expose any network services''),
           FinishMonitoring,
           ShutdownContainer,
           Println ''docker-slim[build]: state=exited'']
          Returned"
    using build_empty_plan_stops[of p w bprobe berr] by blast
  from a have go: "list_all is_Go (build_start_steps p w)" by blast
  show r: "OnBuild p w =
          (concat (map events_of (build_start_steps p w)) @
           [Println (''docker-slim[build]: state=http.probe.error error='' @
                     quoted ''no exposed ports'' @ '' message='' @ [CHR 0x27] @
                     ''expose your service port with --expose or disable HTTP probing with --http-probe=false if your containerized application doesnt expose any network services''),
            FinishMonitoring,
            ShutdownContainer,
            Println ''docker-slim[build]: state=exited''],
           Returned)"
    unfolding OnBuild_def OnBuild_steps_def
    using run_stops_after[OF go] by (simp add: stop)
  show "StartProbe \<notin> set (fst (OnBuild p w))"
    unfolding r using start_events_quiet(2)[of p w] by (simp add: Println_def)
qed

lemma no_ports_plan:
  "NewCustomProbe (range_order (S_world\<lparr>containerInspector := no_ports_inspector\<rparr>))
     (containerInspector (S_world\<lparr>containerInspector := no_ports_inspector\<rparr>))
     (httpProbeCmds S_params) (httpProbeRetryCount S_params) (httpProbeRetryWait S_params)
     (httpProbePorts S_params) (doHTTPProbeFull S_params) True pp =
   Return (\<lparr> PrintState = True, PrintPrefix = pp, Ports = [], Cmds = [get_root],
              RetryCount = 0, RetryWait = 0, TargetPorts = [], ProbeFull = False,
              ContainerInspector = no_ports_inspector \<rparr>, None)"
  by (simp add: NewCustomProbe_def S_params_def S_world_def no_ports_inspector_def S1_inspector_def
        bind_def)

lemma no_ports_reached:
  "list_all is_Go (profile_start_steps S_params (S_world\<lparr>containerInspector := no_ports_inspector\<rparr>))"
  "list_all is_Go (build_start_steps S_params (S_world\<lparr>containerInspector := no_ports_inspector\<rparr>))"
  by (simp_all add: profile_start_reached build_start_reached S_params_def S_world_def)

theorem empty_plan_exits_cleanly_witness:
  "list_all is_Go (profile_start_steps S_params (S_world\<lparr>containerInspector := no_ports_inspector\<rparr>)) \<and>
   list_all is_Go (build_start_steps S_params (S_world\<lparr>containerInspector := no_ports_inspector\<rparr>)) \<and>
   doHTTPProbe S_params \<and>
   snd (OnProfile S_params (S_world\<lparr>containerInspector := no_ports_inspector\<rparr>)) = Returned \<and>
   StartProbe \<notin> set (fst (OnProfile S_params (S_world\<lparr>containerInspector := no_ports_inspector\<rparr>))) \<and>
   drop 10 (fst (OnProfile S_params (S_world\<lparr>containerInspector := no_ports_inspector\<rparr>))) =
     [Println (''docker-slim[profile]: state=http.probe.error error='' @
               quoted ''no exposed ports'' @ '' message='' @ [CHR 0x27] @
               ''expose your service port with --expose or disable HTTP probing with --http-probe=false if your containerized application doesnt expose any network services''),
      FinishMonitoring,
      ShutdownContainer,
      Println ''docker-slim[profile]: state=exited''] \<and>
   snd (OnBuild S_params (S_world\<lparr>containerInspector := no_ports_inspector\<rparr>)) = Returned \<and>
   StartProbe \<notin> set (fst (OnBuild S_params (S_world\<lparr>containerInspector := no_ports_inspector\<rparr>))) \<and>
   drop 10 (fst (OnBuild S_params (S_world\<lparr>containerInspector := no_ports_inspector\<rparr>))) =
     [Println (''docker-slim[build]: state=http.probe.error error='' @
               quoted ''no exposed ports'' @ '' message='' @ [CHR 0x27] @
               ''expose your service port with --expose or disable HTTP probing with --http-probe=false if your containerized application doesnt expose any network services''),
      FinishMonitoring,
      ShutdownContainer,
      Println ''docker-slim[build]: state=exited'']"
proof -
  let ?W = "S_world\<lparr>containerInspector := no_ports_inspector\<rparr>"
  have probing: "doHTTPProbe S_params" by (simp add: S_params_def)
  have lp: "length (concat (map events_of (profile_start_steps S_params ?W))) = 10"
    by (simp add: profile_start_steps_def FailOn_def S_params_def S_world_def)
  have lb: "length (concat (map events_of (build_start_steps S_params ?W))) = 10"
    by (simp add: build_start_steps_def basic_image_steps_def dockerfile_lines_def FailOn_def
          S_params_def S_world_def no_ports_inspector_def S1_inspector_def)
  note inst = empty_plan_exits_cleanly[where p = S_params and w = ?W
      and probe = "\<lparr> PrintState = True, PrintPrefix = ''docker-slim[profile]:'', Ports = [],
              Cmds = [get_root], RetryCount = 0, RetryWait = 0, TargetPorts = [], ProbeFull = False,
              ContainerInspector = no_ports_inspector \<rparr>" and err = None
      and bprobe = "\<lparr> PrintState = True, PrintPrefix = ''docker-slim[build]:'', Ports = [],
              Cmds = [get_root], RetryCount = 0, RetryWait = 0, TargetPorts = [], ProbeFull = False,
              ContainerInspector = no_ports_inspector \<rparr>" and berr = None]
  have emp: "Ports \<lparr> PrintState = True, PrintPrefix = pp, Ports = [],
              Cmds = [get_root], RetryCount = 0, RetryWait = 0, TargetPorts = [], ProbeFull = False,
              ContainerInspector = no_ports_inspector \<rparr> = []" for pp
    by simp
  note rp = inst[THEN conjunct1, THEN mp,
                 OF conjI[OF no_ports_reached(1) conjI[OF disjI1[OF probing] conjI[OF no_ports_plan emp]]]]
  note rb = inst[THEN conjunct2, THEN mp,
                 OF conjI[OF no_ports_reached(2) conjI[OF disjI1[OF probing] conjI[OF no_ports_plan emp]]]]
  note P = rp[THEN conjunct1] and PS = rp[THEN conjunct2]
  note B = rb[THEN conjunct1] and BS = rb[THEN conjunct2]
  have P1: "snd (OnProfile S_params ?W) = Returned" by (simp add: P)
  have P2: "drop 10 (fst (OnProfile S_params ?W)) =
     [Println (''docker-slim[profile]: state=http.probe.error error='' @
               quoted ''no exposed ports'' @ '' message='' @ [CHR 0x27] @
               ''expose your service port with --expose or disable HTTP probing with --http-probe=false if your containerized application doesnt expose any network services''),
      FinishMonitoring,
      ShutdownContainer,
      Println ''docker-slim[profile]: state=exited'']"
    by (simp add: P lp)
  have B1: "snd (OnBuild S_params ?W) = Returned" by (simp add: B)
  have B2: "drop 10 (fst (OnBuild S_params ?W)) =
     [Println (''docker-slim[build]: state=http.probe.error error='' @
               quoted ''no exposed ports'' @ '' message='' @ [CHR 0x27] @
               ''expose your service port with --expose or disable HTTP probing with --http-probe=false if your containerized application doesnt expose any network services''),
      FinishMonitoring,
      ShutdownContainer,
      Println ''docker-slim[build]: state=exited'']"
    by (simp add: B lb)
  show ?thesis
    by (intro conjI) (rule no_ports_reached probing P1 PS P2 B1 BS B2)+
qed

subsection \<open>The prefix of the lines\<close>

text \<open>
  Claim C8 says that every line of a \<open>profile\<close> invocation begins with
  \<open>docker-slim[profile]:\<close>. Line 131 of the profile command prints the container's
  name and ports with the prefix \<open>docker-slim[build]:\<close>, copied from the build command:
  every run of \<open>profile\<close> that starts the container writes that line.
\<close>

theorem OnProfile_prints_build_prefix:
  "list_all is_Go (profile_start_steps p w) \<longrightarrow>
   Println (''docker-slim[build]: info=container name='' @ ContainerName (containerInspector w) @
            '' id='' @ ContainerID (containerInspector w) @
            '' target.port.list=['' @ ContainerPortList (containerInspector w) @
            ''] target.port.info=['' @ ContainerPortsInfo (containerInspector w) @
            ''] message='' @
            quoted ''YOU CAN USE THESE PORTS TO INTERACT WITH THE CONTAINER'')
     \<in> set (fst (OnProfile p w))"
proof
  assume go: "list_all is_Go (profile_start_steps p w)"
  let ?line = "Println (''docker-slim[build]: info=container name='' @ ContainerName (containerInspector w) @
            '' id='' @ ContainerID (containerInspector w) @
            '' target.port.list=['' @ ContainerPortList (containerInspector w) @
            ''] target.port.info=['' @ ContainerPortsInfo (containerInspector w) @
            ''] message='' @
            quoted ''YOU CAN USE THESE PORTS TO INTERACT WITH THE CONTAINER'')"
  have "Go [?line] \<in> set (profile_start_steps p w)"
    by (simp add: profile_start_steps_def)
  then have "?line \<in> set (concat (map events_of (profile_start_steps p w)))"
    by (force simp del: set_concat simp: set_concat)
  moreover have "set (concat (map events_of (profile_start_steps p w))) \<subseteq> set (fst (OnProfile p w))"
    unfolding OnProfile_def OnProfile_steps_def
    using go by (simp add: run_append split: prod.split)
  ultimately show "?line \<in> set (fst (OnProfile p w))" by blast
qed

lemma S_reached: "list_all is_Go (profile_start_steps S_params S_world)"
  by (simp add: profile_start_reached S_params_def S_world_def)

lemma S_profile_lines:
  "take 8 (lines_of (fst (OnProfile S_params S_world))) =
   [''docker-slim[profile]: state=started'',
    ''docker-slim[profile]: info=params target=nginx'',
    ''docker-slim[profile]: state=image.inspection.start'',
    ''docker-slim[profile]: info=image id=sha256:ab size.bytes=1000 size.human=1000 B'',
    ''docker-slim[profile]: state=image.inspection.done'',
    ''docker-slim[profile]: state=container.inspection.start'',
    ''docker-slim[build]: info=container name=slimk_1 id=4f2a target.port.list=[32780,32781,32783,32790] target.port.info=[80/tcp => 0.0.0.0:32780] message='' @
      quoted ''YOU CAN USE THESE PORTS TO INTERACT WITH THE CONTAINER'',
    ''docker-slim[profile]: state=http.probe.starting message='' @ quoted ''WAIT FOR HTTP PROBE TO FINISH'']"
  by code_simp

theorem OnProfile_prints_build_prefix_witness:
  "list_all is_Go (profile_start_steps S_params S_world) \<and>
   Println (''docker-slim[build]: info=container name=slimk_1 id=4f2a target.port.list=[32780,32781,32783,32790] target.port.info=[80/tcp => 0.0.0.0:32780] message='' @
            quoted ''YOU CAN USE THESE PORTS TO INTERACT WITH THE CONTAINER'')
     \<in> set (fst (OnProfile S_params S_world)) \<and>
   take 21 (''docker-slim[build]: info=container name=slimk_1 id=4f2a target.port.list=[32780,32781,32783,32790] target.port.info=[80/tcp => 0.0.0.0:32780] message='' @
            quoted ''YOU CAN USE THESE PORTS TO INTERACT WITH THE CONTAINER'') \<noteq>
     ''docker-slim[profile]:'' \<and>
   take 8 (lines_of (fst (OnProfile S_params S_world))) =
   [''docker-slim[profile]: state=started'',
    ''docker-slim[profile]: info=params target=nginx'',
    ''docker-slim[profile]: state=image.inspection.start'',
    ''docker-slim[profile]: info=image id=sha256:ab size.bytes=1000 size.human=1000 B'',
    ''docker-slim[profile]: state=image.inspection.done'',
    ''docker-slim[profile]: state=container.inspection.start'',
    ''docker-slim[build]: info=container name=slimk_1 id=4f2a target.port.list=[32780,32781,32783,32790] target.port.info=[80/tcp => 0.0.0.0:32780] message='' @
      quoted ''YOU CAN USE THESE PORTS TO INTERACT WITH THE CONTAINER'',
    ''docker-slim[profile]: state=http.probe.starting message='' @ quoted ''WAIT FOR HTTP PROBE TO FINISH'']"
proof -
  have eq: "containerInspector S_world = S1_inspector" by (simp add: S_world_def)
  from OnProfile_prints_build_prefix[where p = S_params and w = S_world, THEN mp, OF S_reached]
  have "Println (''docker-slim[build]: info=container name=slimk_1 id=4f2a target.port.list=[32780,32781,32783,32790] target.port.info=[80/tcp => 0.0.0.0:32780] message='' @
            quoted ''YOU CAN USE THESE PORTS TO INTERACT WITH THE CONTAINER'')
     \<in> set (fst (OnProfile S_params S_world))"
    unfolding eq by (simp add: S1_inspector_def)
  moreover have "take 21 (''docker-slim[build]: info=container name=slimk_1 id=4f2a target.port.list=[32780,32781,32783,32790] target.port.info=[80/tcp => 0.0.0.0:32780] message='' @
            quoted ''YOU CAN USE THESE PORTS TO INTERACT WITH THE CONTAINER'') \<noteq>
     ''docker-slim[profile]:''"
    by simp
  ultimately show ?thesis using S_reached S_profile_lines by blast
qed

end
